theory Spec2Isabelle
  imports Complex_Main "HOL-Library.Monad_Syntax"
begin

section \<open>Numbers, vectors and the data model\<close>

text \<open>
  The program is \<^verbatim>\<open>src/src/App.jsx\<close>. A JavaScript Number is modelled as a real number:
  arithmetic is exact, without rounding and without overflow, and zero has no sign. A
  value that is not a finite number (the NaN of a division \<open>0/0\<close> or of an unparsable
  token) is written out where the code can produce one. An array \<^verbatim>\<open>[x, y, z]\<close> is a triple.
\<close>

type_synonym 'n vec3 = "'n \<times> 'n \<times> 'n"

text \<open>The four tags of the material selector (\<^verbatim>\<open>materialType\<close>).\<close>

datatype material = Concrete | Steel | Wood | Standard

text \<open>
  The entries of \<^verbatim>\<open>cylinderParams\<close> and \<^verbatim>\<open>sphereParams\<close>. The type parameter is the
  type of the numeric fields: \<open>real\<close> for a scene of finite numbers, \<open>real option\<close>
  for what the importer builds (\<open>None\<close> is NaN).
\<close>

record 'n cylinder =
  radiusTop :: 'n
  radiusBottom :: 'n
  height :: 'n
  rotation :: "'n vec3"
  position :: "'n vec3"
  materialType :: material

record 'n sphere =
  radius :: 'n
  position :: "'n vec3"
  materialType :: material

text \<open>
  An object with string keys that are not array indices (\<^verbatim>\<open>cylinder1\<close>, \<^verbatim>\<open>sphere2\<close>)
  enumerates its keys in insertion order: an association list.
\<close>

type_synonym 'n cylinderParams = "(string \<times> 'n cylinder) list"
type_synonym 'n sphereParams = "(string \<times> 'n sphere) list"

section \<open>Orientation\<close>

text \<open>\<^verbatim>\<open>cyl.rotation.map(v => v * Math.PI)\<close>\<close>

definition timesPi :: "real vec3 \<Rightarrow> real vec3" where
  "timesPi r = (case r of (a, b, c) \<Rightarrow> (a * pi, b * pi, c * pi))"

definition eulerToDirection :: "real vec3 \<Rightarrow> real vec3" where
  "eulerToDirection r =
     (case r of (rotX, rotY, rotZ) \<Rightarrow>
        let v0 = 0; v1 = 1; v2 = 0;
            vy = v1 * cos rotX - v2 * sin rotX;
            vz = v1 * sin rotX + v2 * cos rotX;
            vx = v0;
            vx2 = vx * cos rotY + vz * sin rotY;
            vz2 = - vx * sin rotY + vz * cos rotY;
            vy2 = vy;
            vx3 = vx2 * cos rotZ - vy2 * sin rotZ;
            vy3 = vx2 * sin rotZ + vy2 * cos rotZ;
            vz3 = vz2;
            len = sqrt (vx3 * vx3 + vy3 * vy3 + vz3 * vz3)
        in (vx3 / len, vy3 / len, vz3 / len))"

section \<open>Collision tests\<close>

definition checkCylinderCollision :: "real cylinder \<Rightarrow> real cylinder \<Rightarrow> bool" where
  "checkCylinderCollision cyl1 cyl2 =
     (case cylinder.position cyl1 of (x1, y1, z1) \<Rightarrow>
      case cylinder.position cyl2 of (x2, y2, z2) \<Rightarrow>
      let r1 = radiusTop cyl1; r2 = radiusTop cyl2;
          h1 = height cyl1; h2 = height cyl2 in
      case eulerToDirection (timesPi (rotation cyl1)) of (d10, d11, d12) \<Rightarrow>
      case eulerToDirection (timesPi (rotation cyl2)) of (d20, d21, d22) \<Rightarrow>
      let s10 = x1 - 0.5 * h1 * d10; s11 = y1 - 0.5 * h1 * d11; s12 = z1 - 0.5 * h1 * d12;
          e10 = x1 + 0.5 * h1 * d10; e11 = y1 + 0.5 * h1 * d11; e12 = z1 + 0.5 * h1 * d12;
          s20 = x2 - 0.5 * h2 * d20; s21 = y2 - 0.5 * h2 * d21; s22 = z2 - 0.5 * h2 * d22;
          e20 = x2 + 0.5 * h2 * d20; e21 = y2 + 0.5 * h2 * d21; e22 = z2 + 0.5 * h2 * d22;
          a10 = e10 - s10; a11 = e11 - s11; a12 = e12 - s12;
          a20 = e20 - s20; a21 = e21 - s21; a22 = e22 - s22;
          c0 = a11 * a22 - a12 * a21;
          c1 = a12 * a20 - a10 * a22;
          c2 = a10 * a21 - a11 * a20;
          crossMag = sqrt (c0 * c0 + c1 * c1 + c2 * c2) in
      if crossMag < 0.001 then
        let centerDist = sqrt ((x2 - x1)\<^sup>2 + (y2 - y1)\<^sup>2 + (z2 - z1)\<^sup>2)
        in centerDist < r1 + r2
      else
        let w0 = s20 - s10; w1 = s21 - s11; w2 = s22 - s12;
            dot1 = w0 * c0 + w1 * c1 + w2 * c2;
            distance = \<bar>dot1\<bar> / crossMag
        in distance < r1 + r2)"

definition checkSphereCollision :: "real sphere \<Rightarrow> real sphere \<Rightarrow> bool" where
  "checkSphereCollision sph1 sph2 =
     (case sphere.position sph1 of (x1, y1, z1) \<Rightarrow>
      case sphere.position sph2 of (x2, y2, z2) \<Rightarrow>
      let r1 = radius sph1; r2 = radius sph2;
          epsilon = 0.01;
          distance = sqrt ((x2 - x1)\<^sup>2 + (y2 - y1)\<^sup>2 + (z2 - z1)\<^sup>2)
      in distance < r1 + r2 - epsilon)"

text \<open>
  When the axis has length zero the quotient \<^verbatim>\<open>t\<close> is \<open>0/0\<close>, NaN: \<^verbatim>\<open>tClamped\<close> is NaN,
  it is neither \<^verbatim>\<open>=== 0\<close> nor \<^verbatim>\<open>=== 1\<close>, \<^verbatim>\<open>distToAxis\<close> is NaN and the last comparison is
  false. That is the first branch below.
\<close>

definition checkCylinderSphereCollision :: "real cylinder \<Rightarrow> real sphere \<Rightarrow> bool" where
  "checkCylinderSphereCollision cyl sph =
     (case cylinder.position cyl of (cx, cy, cz) \<Rightarrow>
      case sphere.position sph of (sx, sy, sz) \<Rightarrow>
      let cylRadius = radiusTop cyl; sphRadius = radius sph; cylHeight = height cyl in
      case eulerToDirection (timesPi (rotation cyl)) of (d0, d1, d2) \<Rightarrow>
      let st0 = cx - 0.5 * cylHeight * d0; st1 = cy - 0.5 * cylHeight * d1;
          st2 = cz - 0.5 * cylHeight * d2;
          en0 = cx + 0.5 * cylHeight * d0; en1 = cy + 0.5 * cylHeight * d1;
          en2 = cz + 0.5 * cylHeight * d2;
          w0 = sx - st0; w1 = sy - st1; w2 = sz - st2;
          a0 = en0 - st0; a1 = en1 - st1; a2 = en2 - st2;
          axisLength = sqrt (a0\<^sup>2 + a1\<^sup>2 + a2\<^sup>2) in
      if axisLength\<^sup>2 = 0 then False
      else
        let t = (w0 * a0 + w1 * a1 + w2 * a2) / axisLength\<^sup>2;
            tClamped = max 0 (min 1 t);
            p0 = st0 + tClamped * a0; p1 = st1 + tClamped * a1; p2 = st2 + tClamped * a2;
            distToAxis = sqrt ((sx - p0)\<^sup>2 + (sy - p1)\<^sup>2 + (sz - p2)\<^sup>2) in
        if tClamped = 0 \<or> tClamped = 1 then
          let (k0, k1, k2) = (if tClamped = 0 then (st0, st1, st2) else (en0, en1, en2));
              n0 = a0 / axisLength; n1 = a1 / axisLength; n2 = a2 / axisLength;
              u0 = sx - k0; u1 = sy - k1; u2 = sz - k2;
              distAlongAxis = u0 * n0 + u1 * n1 + u2 * n2;
              q0 = sx - distAlongAxis * n0; q1 = sy - distAlongAxis * n1;
              q2 = sz - distAlongAxis * n2;
              radialDist = sqrt ((q0 - k0)\<^sup>2 + (q1 - k1)\<^sup>2 + (q2 - k2)\<^sup>2) in
          if radialDist \<le> cylRadius then \<bar>distAlongAxis\<bar> < sphRadius
          else
            let rimDist = sqrt ((radialDist - cylRadius)\<^sup>2 + distAlongAxis\<^sup>2)
            in rimDist < sphRadius
        else distToAxis < cylRadius + sphRadius)"

text \<open>
  The three double loops of \<^verbatim>\<open>detectCollisions\<close>: every pair \<open>i < j\<close> of cylinders, every
  pair \<open>i < j\<close> of spheres, every cylinder with every sphere, in that order.
\<close>

fun cylinderPairs :: "real cylinderParams \<Rightarrow> (string \<times> string) list" where
  "cylinderPairs [] = []"
| "cylinderPairs ((id1, cyl1) # rest) =
     map (\<lambda>(id2, cyl2). (id1, id2)) (filter (\<lambda>(id2, cyl2). checkCylinderCollision cyl1 cyl2) rest)
     @ cylinderPairs rest"

fun spherePairs :: "real sphereParams \<Rightarrow> (string \<times> string) list" where
  "spherePairs [] = []"
| "spherePairs ((id1, sph1) # rest) =
     map (\<lambda>(id2, sph2). (id1, id2)) (filter (\<lambda>(id2, sph2). checkSphereCollision sph1 sph2) rest)
     @ spherePairs rest"

fun cylinderSpherePairs :: "real cylinderParams \<Rightarrow> real sphereParams \<Rightarrow> (string \<times> string) list" where
  "cylinderSpherePairs [] sphs = []"
| "cylinderSpherePairs ((cylId, cyl) # rest) sphs =
     map (\<lambda>(sphId, sph). (cylId, sphId))
       (filter (\<lambda>(sphId, sph). checkCylinderSphereCollision cyl sph) sphs)
     @ cylinderSpherePairs rest sphs"

definition detectCollisions :: "real cylinderParams \<Rightarrow> real sphereParams \<Rightarrow> (string \<times> string) list" where
  "detectCollisions cylinderParams sphereParams =
     cylinderPairs cylinderParams @ spherePairs sphereParams
     @ cylinderSpherePairs cylinderParams sphereParams"

section \<open>Vector notions used to state the properties\<close>

definition dot3 :: "real vec3 \<Rightarrow> real vec3 \<Rightarrow> real" where
  "dot3 u v = (case u of (u0, u1, u2) \<Rightarrow> case v of (v0, v1, v2) \<Rightarrow> u0 * v0 + u1 * v1 + u2 * v2)"

definition cross3 :: "real vec3 \<Rightarrow> real vec3 \<Rightarrow> real vec3" where
  "cross3 u v = (case u of (u0, u1, u2) \<Rightarrow> case v of (v0, v1, v2) \<Rightarrow>
     (u1 * v2 - u2 * v1, u2 * v0 - u0 * v2, u0 * v1 - u1 * v0))"

definition norm3 :: "real vec3 \<Rightarrow> real" where
  "norm3 u = (case u of (u0, u1, u2) \<Rightarrow> sqrt (u0\<^sup>2 + u1\<^sup>2 + u2\<^sup>2))"

definition sub3 :: "real vec3 \<Rightarrow> real vec3 \<Rightarrow> real vec3" where
  "sub3 u v = (case u of (u0, u1, u2) \<Rightarrow> case v of (v0, v1, v2) \<Rightarrow> (u0 - v0, u1 - v1, u2 - v2))"

definition add3 :: "real vec3 \<Rightarrow> real vec3 \<Rightarrow> real vec3" where
  "add3 u v = (case u of (u0, u1, u2) \<Rightarrow> case v of (v0, v1, v2) \<Rightarrow> (u0 + v0, u1 + v1, u2 + v2))"

definition scale3 :: "real \<Rightarrow> real vec3 \<Rightarrow> real vec3" where
  "scale3 k u = (case u of (u0, u1, u2) \<Rightarrow> (k * u0, k * u1, k * u2))"

definition dist3 :: "real vec3 \<Rightarrow> real vec3 \<Rightarrow> real" where
  "dist3 u v = norm3 (sub3 v u)"

text \<open>The axis direction of a cylinder, and the two ends of its axis segment.\<close>

definition direction :: "real cylinder \<Rightarrow> real vec3" where
  "direction cyl = eulerToDirection (timesPi (rotation cyl))"

definition axisStart :: "real cylinder \<Rightarrow> real vec3" where
  "axisStart cyl = sub3 (cylinder.position cyl) (scale3 (height cyl / 2) (direction cyl))"

definition axisEnd :: "real cylinder \<Rightarrow> real vec3" where
  "axisEnd cyl = add3 (cylinder.position cyl) (scale3 (height cyl / 2) (direction cyl))"

text \<open>
  The cylinder--cylinder test as the specification words it: the parallel test is made on
  the cross product of the two unit directions.
\<close>

definition cylinderCollisionAsSpecified :: "real cylinder \<Rightarrow> real cylinder \<Rightarrow> bool" where
  "cylinderCollisionAsSpecified cyl1 cyl2 =
     (let cr = cross3 (direction cyl1) (direction cyl2) in
      if norm3 cr < 0.001
      then dist3 (cylinder.position cyl1) (cylinder.position cyl2) < radiusTop cyl1 + radiusTop cyl2
      else \<bar>dot3 (sub3 (axisStart cyl2) (axisStart cyl1)) cr\<bar> / norm3 cr
             < radiusTop cyl1 + radiusTop cyl2)"

text \<open>
  The same test with the parallel test the code makes: on the cross product of the two axis
  vectors \<open>end - start\<close>, whose length is \<open>\<bar>h1 * h2\<bar>\<close> times that of the cross product of
  the directions.
\<close>

definition cylinderCollisionByAxes :: "real cylinder \<Rightarrow> real cylinder \<Rightarrow> bool" where
  "cylinderCollisionByAxes cyl1 cyl2 =
     (let cr = cross3 (direction cyl1) (direction cyl2) in
      if \<bar>height cyl1 * height cyl2\<bar> * norm3 cr < 0.001
      then dist3 (cylinder.position cyl1) (cylinder.position cyl2) < radiusTop cyl1 + radiusTop cyl2
      else \<bar>dot3 (sub3 (axisStart cyl2) (axisStart cyl1)) cr\<bar> / norm3 cr
             < radiusTop cyl1 + radiusTop cyl2)"

text \<open>
  The offset of the second centre from the first, along the first axis and perpendicular
  to it.
\<close>

definition axialOffset :: "real cylinder \<Rightarrow> real cylinder \<Rightarrow> real" where
  "axialOffset cyl1 cyl2 =
     dot3 (sub3 (cylinder.position cyl2) (cylinder.position cyl1)) (direction cyl1)"

definition perpendicularOffset :: "real cylinder \<Rightarrow> real cylinder \<Rightarrow> real" where
  "perpendicularOffset cyl1 cyl2 =
     norm3 (sub3 (sub3 (cylinder.position cyl2) (cylinder.position cyl1))
                 (scale3 (axialOffset cyl1 cyl2) (direction cyl1)))"

text \<open>
  The cylinder--sphere test as the specification words it: the clamped projection on the
  axis segment, the radial test inside, the cap test (disk, then rim) at an end.
\<close>

definition cylinderSphereAsSpecified :: "real cylinder \<Rightarrow> real sphere \<Rightarrow> bool" where
  "cylinderSphereAsSpecified cyl sph =
     (let s = sphere.position sph;
          axis = sub3 (axisEnd cyl) (axisStart cyl);
          t = dot3 (sub3 s (axisStart cyl)) axis / (norm3 axis)\<^sup>2;
          tClamped = max 0 (min 1 t);
          closest = add3 (axisStart cyl) (scale3 tClamped axis) in
      if 0 < tClamped \<and> tClamped < 1
      then dist3 closest s < radiusTop cyl + radius sph
      else
        let cap = (if tClamped = 0 then axisStart cyl else axisEnd cyl);
            unit = scale3 (1 / norm3 axis) axis;
            axial = dot3 (sub3 s cap) unit;
            inPlane = sub3 s (scale3 axial unit);
            radial = dist3 cap inPlane in
        if radial \<le> radiusTop cyl then \<bar>axial\<bar> < radius sph
        else sqrt ((radial - radiusTop cyl)\<^sup>2 + axial\<^sup>2) < radius sph)"

section \<open>Strings and numbers of the platform\<close>

text \<open>
  A JavaScript string is modelled as a list of characters with code units below 256. The
  functions of this section are those of the language that the codec calls; each follows
  its definition in the language standard.
\<close>

text \<open>White space and line terminators (\<^verbatim>\<open>\s\<close>, and what \<^verbatim>\<open>trim\<close> removes) below 256.\<close>

definition isWhiteSpace :: "char \<Rightarrow> bool" where
  "isWhiteSpace c \<longleftrightarrow>
     c \<in> {CHR 0x09, CHR 0x0A, CHR 0x0B, CHR 0x0C, CHR 0x0D, CHR '' '', CHR 0xA0}"

definition isDigit :: "char \<Rightarrow> bool" where
  "isDigit c \<longleftrightarrow> c \<in> set ''0123456789''"

definition trim :: "string \<Rightarrow> string" where
  "trim s = rev (dropWhile isWhiteSpace (rev (dropWhile isWhiteSpace s)))"

text \<open>\<^verbatim>\<open>s.startsWith(p)\<close>\<close>

definition startsWith :: "string \<Rightarrow> string \<Rightarrow> bool" where
  "startsWith p s \<longleftrightarrow> take (length p) s = p"

text \<open>\<^verbatim>\<open>text.split('\n')\<close>: the empty text gives one empty line.\<close>

fun splitNewline :: "string \<Rightarrow> string list" where
  "splitNewline [] = [[]]"
| "splitNewline (c # cs) =
     (if c = CHR 0x0A then [] # splitNewline cs
      else (case splitNewline cs of [] \<Rightarrow> [[c]] | l # ls \<Rightarrow> (c # l) # ls))"

text \<open>
  \<^verbatim>\<open>line.split(/\s+/)\<close>: the pieces between maximal runs of white space; a run at the start
  or at the end leaves an empty piece there.
\<close>

fun splitWhiteSpace :: "string \<Rightarrow> string list" where
  "splitWhiteSpace [] = [[]]"
| "splitWhiteSpace (c # cs) =
     (if isWhiteSpace c then
        (case cs of
           [] \<Rightarrow> [] # splitWhiteSpace cs
         | d # ds \<Rightarrow> if isWhiteSpace d then splitWhiteSpace cs else [] # splitWhiteSpace cs)
      else (case splitWhiteSpace cs of [] \<Rightarrow> [[c]] | l # ls \<Rightarrow> (c # l) # ls))"

text \<open>
  \<^verbatim>\<open>line.match(/^\d+(\s+\d+)*$/)\<close>: groups of digits separated by runs of white space and
  nothing else, that is, every piece of the split is a non-empty string of digits.
\<close>

definition matchesIntegerList :: "string \<Rightarrow> bool" where
  "matchesIntegerList s \<longleftrightarrow> list_all (\<lambda>t. t \<noteq> [] \<and> list_all isDigit t) (splitWhiteSpace s)"

definition digitValue :: "char \<Rightarrow> nat" where
  "digitValue c = of_char c - 48"

definition digitChar :: "nat \<Rightarrow> char" where
  "digitChar d = ''0123456789'' ! d"

text \<open>The value of a string of decimal digits, as \<^verbatim>\<open>Number\<close> reads a token \<^verbatim>\<open>\d+\<close>.\<close>

definition digitsValue :: "string \<Rightarrow> nat" where
  "digitsValue ds = foldl (\<lambda>a c. 10 * a + digitValue c) 0 ds"

text \<open>The decimal text of an index, as a template literal prints it.\<close>

function showNat :: "nat \<Rightarrow> string" where
  "showNat n = (if n < 10 then [digitChar n] else showNat (n div 10) @ [digitChar (n mod 10)])"
  by pat_completeness auto
termination
  by (relation "measure (\<lambda>n. n)") auto

declare showNat.simps [simp del]

text \<open>
  \<^verbatim>\<open>parseFloat\<close>: leading white space is skipped and the longest prefix that is a decimal
  literal is read: a sign, digits, a fraction, and an exponent when \<^verbatim>\<open>e\<close> or \<^verbatim>\<open>E\<close> is followed
  by an optionally signed digit. \<open>None\<close> is NaN, when there is no such prefix. The literal
  \<^verbatim>\<open>Infinity\<close> reads as an infinite Number, for which the model has no value: \<open>None\<close> as well.
\<close>

definition exponentPart :: "string \<Rightarrow> int" where
  "exponentPart s =
     (case s of
        [] \<Rightarrow> 0
      | c # r \<Rightarrow>
          if c = CHR ''e'' \<or> c = CHR ''E'' then
            (case r of
               [] \<Rightarrow> 0
             | d # r' \<Rightarrow>
                 if d = CHR ''-'' then
                   (if takeWhile isDigit r' = [] then 0 else - int (digitsValue (takeWhile isDigit r')))
                 else if d = CHR ''+'' then
                   (if takeWhile isDigit r' = [] then 0 else int (digitsValue (takeWhile isDigit r')))
                 else
                   (if takeWhile isDigit r = [] then 0 else int (digitsValue (takeWhile isDigit r))))
          else 0)"

definition parseFloat :: "string \<Rightarrow> real option" where
  "parseFloat s =
     (let s1 = dropWhile isWhiteSpace s;
          negative = startsWith ''-'' s1;
          s2 = (if startsWith ''-'' s1 \<or> startsWith ''+'' s1 then tl s1 else s1);
          intDigits = takeWhile isDigit s2;
          s3 = dropWhile isDigit s2;
          fracDigits = (if startsWith ''.'' s3 then takeWhile isDigit (tl s3) else []);
          s4 = (if startsWith ''.'' s3 then dropWhile isDigit (tl s3) else s3) in
      if intDigits = [] \<and> fracDigits = [] then None
      else
        let mantissa = real (digitsValue (intDigits @ fracDigits)) / 10 ^ length fracDigits;
            e = exponentPart s4;
            magnitude = (if 0 \<le> e then mantissa * 10 ^ nat e else mantissa / 10 ^ nat (- e))
        in Some (if negative then - magnitude else magnitude))"

text \<open>
  \<^verbatim>\<open>x.toFixed(6)\<close>: the sign, then the integer \<open>n\<close> nearest to \<open>\<bar>x\<bar> * 10\<^sup>6\<close> (the larger one of
  two), printed with a point before its last six digits. From \<open>10\<^sup>2\<^sup>1\<close> on the language
  prints the shortest digits that identify the binary number, in exponent notation:
  the model has no text for that, \<open>None\<close>.
\<close>

definition toFixed6 :: "real \<Rightarrow> string option" where
  "toFixed6 x =
     (if 10 ^ 21 \<le> \<bar>x\<bar> then None
      else
        let n = nat \<lfloor>\<bar>x\<bar> * 10 ^ 6 + 1 / 2\<rfloor>;
            m = showNat n;
            m' = replicate (7 - length m) CHR ''0'' @ m;
            k = length m'
        in Some ((if x < 0 then ''-'' else []) @ take (k - 6) m' @ ''.'' @ drop (k - 6) m'))"

text \<open>
  \<^verbatim>\<open>Math.atan2(y, x)\<close>. The real zero has no sign: at \<open>y = 0\<close> the result is that of \<open>+0\<close>.
\<close>

definition atan2 :: "real \<Rightarrow> real \<Rightarrow> real" where
  "atan2 y x =
     (if 0 < x then arctan (y / x)
      else if x < 0 then (if 0 \<le> y then arctan (y / x) + pi else arctan (y / x) - pi)
      else if 0 < y then pi / 2
      else if y < 0 then - pi / 2
      else 0)"

section \<open>Export\<close>

text \<open>\<^verbatim>\<open>materialMap[params.materialType] || 1\<close>; every tag has an entry.\<close>

fun materialMap :: "material \<Rightarrow> nat" where
  "materialMap Concrete = 1"
| "materialMap Steel = 2"
| "materialMap Wood = 3"
| "materialMap Standard = 4"

text \<open>The line of one cylinder (lines 1131 to 1142).\<close>

definition rccLine :: "nat \<Rightarrow> real cylinder \<Rightarrow> string option" where
  "rccLine index params =
     (case cylinder.position params of (centerX, centerY, centerZ) \<Rightarrow>
      case timesPi (rotation params) of (rotX, rotY, rotZ) \<Rightarrow>
      let height = height params; radius = radiusTop params in
      case eulerToDirection (rotX, rotY, rotZ) of (dx, dy, dz) \<Rightarrow>
      let bottomX = centerX - 0.5 * height * dx;
          bottomY = centerY - 0.5 * height * dy;
          bottomZ = centerZ - 0.5 * height * dz;
          dirX = dx * height; dirY = dy * height; dirZ = dz * height in
      do {
        bx \<leftarrow> toFixed6 bottomX; by \<leftarrow> toFixed6 bottomY; bz \<leftarrow> toFixed6 bottomZ;
        tx \<leftarrow> toFixed6 dirX; ty \<leftarrow> toFixed6 dirY; tz \<leftarrow> toFixed6 dirZ;
        r \<leftarrow> toFixed6 radius;
        Some (''rcc '' @ showNat index @ '' '' @ bx @ '' '' @ by @ '' '' @ bz @ '' ''
                @ tx @ '' '' @ ty @ '' '' @ tz @ '' '' @ r @ [CHR 0x0A])
      })"

text \<open>The line of one sphere (lines 1148 to 1150).\<close>

definition sphLine :: "nat \<Rightarrow> real sphere \<Rightarrow> string option" where
  "sphLine index params =
     (case sphere.position params of (centerX, centerY, centerZ) \<Rightarrow>
      do {
        x \<leftarrow> toFixed6 centerX; y \<leftarrow> toFixed6 centerY; z \<leftarrow> toFixed6 centerZ;
        r \<leftarrow> toFixed6 (radius params);
        Some (''sph '' @ showNat index @ '' '' @ x @ '' '' @ y @ '' '' @ z @ '' '' @ r
                @ [CHR 0x0A])
      })"

text \<open>
  The loops over \<^verbatim>\<open>Object.entries\<close>, each started at the running \<^verbatim>\<open>index\<close>; the text
  they append.
\<close>

fun exportCylinders :: "nat \<Rightarrow> real cylinderParams \<Rightarrow> string option" where
  "exportCylinders index [] = Some []"
| "exportCylinders index ((ident, params) # rest) =
     do { l \<leftarrow> rccLine index params; ls \<leftarrow> exportCylinders (index + 1) rest; Some (l @ ls) }"

fun exportSpheres :: "nat \<Rightarrow> real sphereParams \<Rightarrow> string option" where
  "exportSpheres index [] = Some []"
| "exportSpheres index ((ident, params) # rest) =
     do { l \<leftarrow> sphLine index params; ls \<leftarrow> exportSpheres (index + 1) rest; Some (l @ ls) }"

fun exportZones :: "nat \<Rightarrow> 'a list \<Rightarrow> string" where
  "exportZones index [] = []"
| "exportZones index (entry # rest) =
     ''zn'' @ showNat index @ '' 1 '' @ showNat index @ [CHR 0x0A] @ exportZones (index + 1) rest"

fun exportCylinderMaterials :: "real cylinderParams \<Rightarrow> string" where
  "exportCylinderMaterials [] = []"
| "exportCylinderMaterials ((ident, params) # rest) =
     showNat (materialMap (cylinder.materialType params)) @ '' '' @ exportCylinderMaterials rest"

fun exportSphereMaterials :: "real sphereParams \<Rightarrow> string" where
  "exportSphereMaterials [] = []"
| "exportSphereMaterials ((ident, params) # rest) =
     showNat (materialMap (sphere.materialType params)) @ '' '' @ exportSphereMaterials rest"

text \<open>The text handed to the file (lines 1126 to 1183).\<close>

definition exportString :: "real cylinderParams \<Rightarrow> real sphereParams \<Rightarrow> string option" where
  "exportString cylinderParams sphereParams =
     do {
       cs \<leftarrow> exportCylinders 1 cylinderParams;
       ss \<leftarrow> exportSpheres (1 + length cylinderParams) sphereParams;
       Some (cs @ ss @ ''end body'' @ [CHR 0x0A]
             @ exportZones 1 cylinderParams
             @ exportZones (1 + length cylinderParams) sphereParams
             @ ''end zone'' @ [CHR 0x0A]
             @ exportCylinderMaterials cylinderParams @ exportSphereMaterials sphereParams
             @ [CHR 0x0A] @ ''oesnt worend geom'' @ [CHR 0x0A])
     }"

text \<open>
  \<^verbatim>\<open>handleExport\<close>: with collisions the user is asked, and a refusal ends the export with
  nothing written; \<^verbatim>\<open>confirmed\<close> is the answer. The result is the text of the file.
  \<open>NotPrintable\<close> stands for a file that is written with a number in exponent notation,
  such as \<^verbatim>\<open>1e+21\<close>: the file exists, and the model does not have its text.
\<close>

datatype exportOutcome = Cancelled | NotPrintable | Saved string

definition handleExport :: "bool \<Rightarrow> real cylinderParams \<Rightarrow> real sphereParams \<Rightarrow> exportOutcome" where
  "handleExport confirmed cylinderParams sphereParams =
     (let collisions = detectCollisions cylinderParams sphereParams in
      if collisions \<noteq> [] \<and> \<not> confirmed then Cancelled
      else (case exportString cylinderParams sphereParams of
              None \<Rightarrow> NotPrintable
            | Some text \<Rightarrow> Saved text))"

section \<open>Import\<close>

datatype objectType = CylinderType | SphereType

record 'n appState =
  cylinderParams :: "'n cylinderParams"
  sphereParams :: "'n sphereParams"
  selectedObject :: string
  selectedObjectType :: objectType

text \<open>The variables of the parsing loop.\<close>

record importState =
  newCylinderParams :: "real option cylinderParams"
  newSphereParams :: "real option sphereParams"
  cylIndex :: nat
  sphIndex :: nat
  objectOrder :: "(objectType \<times> string) list"
  materialList :: "nat list"
  parsingMaterials :: bool

text \<open>\<^verbatim>\<open>obj[key] = value\<close>: a new key goes last, a known key keeps its place.\<close>

fun assign :: "string \<Rightarrow> 'v \<Rightarrow> (string \<times> 'v) list \<Rightarrow> (string \<times> 'v) list" where
  "assign k v [] = [(k, v)]"
| "assign k v ((k', v') # rest) =
     (if k' = k then (k, v) # rest else (k', v') # assign k v rest)"

text \<open>\<^verbatim>\<open>materialMapReverse[matNum] || 'concrete'\<close>\<close>

definition materialMapReverse :: "nat \<Rightarrow> material" where
  "materialMapReverse matNum =
     (if matNum = 1 then Concrete else if matNum = 2 then Steel
      else if matNum = 3 then Wood else if matNum = 4 then Standard else Concrete)"

text \<open>The cylinder of an \<^verbatim>\<open>rcc\<close> line (lines 1221 to 1244); NaN goes through the arithmetic.\<close>

definition rccCylinder :: "string list \<Rightarrow> real option cylinder" where
  "rccCylinder parts =
     (let posX = parseFloat (parts ! 2); posY = parseFloat (parts ! 3);
          posZ = parseFloat (parts ! 4);
          dirX = parseFloat (parts ! 5); dirY = parseFloat (parts ! 6);
          dirZ = parseFloat (parts ! 7);
          radius = parseFloat (parts ! 8);
          height = do { dx \<leftarrow> dirX; dy \<leftarrow> dirY; dz \<leftarrow> dirZ;
                        Some (sqrt (dx * dx + dy * dy + dz * dz)) };
          centerX = do { p \<leftarrow> posX; d \<leftarrow> dirX; Some (p + d / 2) };
          centerY = do { p \<leftarrow> posY; d \<leftarrow> dirY; Some (p + d / 2) };
          centerZ = do { p \<leftarrow> posZ; d \<leftarrow> dirZ; Some (p + d / 2) };
          rotY = do { dx \<leftarrow> dirX; dz \<leftarrow> dirZ; Some (atan2 dx dz / pi) };
          rotX = do { dx \<leftarrow> dirX; dy \<leftarrow> dirY; dz \<leftarrow> dirZ;
                      Some (atan2 (sqrt (dx * dx + dz * dz)) dy / pi) }
      in \<lparr>radiusTop = radius, radiusBottom = radius, height = height,
          rotation = (rotX, rotY, Some 0), position = (centerX, centerY, centerZ),
          materialType = Concrete\<rparr>)"

definition sphSphere :: "string list \<Rightarrow> real option sphere" where
  "sphSphere parts =
     (let posX = parseFloat (parts ! 2); posY = parseFloat (parts ! 3);
          posZ = parseFloat (parts ! 4);
          radius = parseFloat (parts ! 5)
      in \<lparr>radius = radius, position = (posX, posY, posZ), materialType = Concrete\<rparr>)"

text \<open>The body of the loop over the lines (lines 1216 to 1269).\<close>

definition importLine :: "importState \<Rightarrow> string \<Rightarrow> importState" where
  "importLine st rawLine =
     (let line = trim rawLine in
      if startsWith ''rcc'' line then
        (let parts = splitWhiteSpace line in
         if 9 \<le> length parts then
           (let ident = ''cylinder'' @ showNat (cylIndex st) in
            st\<lparr>newCylinderParams := assign ident (rccCylinder parts) (newCylinderParams st),
               objectOrder := objectOrder st @ [(CylinderType, ident)],
               cylIndex := cylIndex st + 1\<rparr>)
         else st)
      else if startsWith ''sph'' line then
        (let parts = splitWhiteSpace line in
         if 6 \<le> length parts then
           (let ident = ''sphere'' @ showNat (sphIndex st) in
            st\<lparr>newSphereParams := assign ident (sphSphere parts) (newSphereParams st),
               objectOrder := objectOrder st @ [(SphereType, ident)],
               sphIndex := sphIndex st + 1\<rparr>)
         else st)
      else if matchesIntegerList line then
        st\<lparr>parsingMaterials := True,
           materialList := map digitsValue (splitWhiteSpace line)\<rparr>
      else st)"

definition initialImportState :: importState where
  "initialImportState =
     \<lparr>newCylinderParams = [], newSphereParams = [], cylIndex = 1, sphIndex = 1,
      objectOrder = [], materialList = [], parsingMaterials = False\<rparr>"

text \<open>\<^verbatim>\<open>newCylinderParams[obj.id].materialType = matType\<close>, on the entry of that key.\<close>

fun setCylinderMaterial ::
  "string \<Rightarrow> material \<Rightarrow> 'n cylinderParams \<Rightarrow> 'n cylinderParams" where
  "setCylinderMaterial k m [] = []"
| "setCylinderMaterial k m ((k', c) # rest) =
     (if k' = k then (k', c\<lparr>cylinder.materialType := m\<rparr>) # rest
      else (k', c) # setCylinderMaterial k m rest)"

fun setSphereMaterial ::
  "string \<Rightarrow> material \<Rightarrow> 'n sphereParams \<Rightarrow> 'n sphereParams" where
  "setSphereMaterial k m [] = []"
| "setSphereMaterial k m ((k', c) # rest) =
     (if k' = k then (k', c\<lparr>sphere.materialType := m\<rparr>) # rest
      else (k', c) # setSphereMaterial k m rest)"

text \<open>
  One round of \<^verbatim>\<open>materialList.forEach\<close> (lines 1278 to 1286), and the loop over the codes
  with the objects at the same indices.
\<close>

definition assignMaterial :: "importState \<Rightarrow> nat \<times> (objectType \<times> string) \<Rightarrow> importState" where
  "assignMaterial st entry =
     (case entry of (matNum, (kind, ident)) \<Rightarrow>
        let matType = materialMapReverse matNum in
        (case kind of
           CylinderType \<Rightarrow>
             st\<lparr>newCylinderParams := setCylinderMaterial ident matType (newCylinderParams st)\<rparr>
         | SphereType \<Rightarrow>
             st\<lparr>newSphereParams := setSphereMaterial ident matType (newSphereParams st)\<rparr>))"

definition assignMaterials :: "importState \<Rightarrow> importState" where
  "assignMaterials st =
     (if materialList st \<noteq> [] \<and> length (objectOrder st) = length (materialList st)
      then foldl assignMaterial st (zip (materialList st) (objectOrder st))
      else st)"

text \<open>The parsed scene: the loop over the lines of the text, then the materials.\<close>

definition parseText :: "string \<Rightarrow> importState" where
  "parseText text = assignMaterials (foldl importLine initialImportState (splitNewline text))"



section \<open>Notions used to state the properties of the import\<close>

text \<open>
  What a line of the file is recognised as: an \<^verbatim>\<open>rcc\<close> record (the trimmed line starts with
  \<^verbatim>\<open>rcc\<close> and has at least 9 pieces), an \<^verbatim>\<open>sph\<close> record (at least 6 pieces), a list of
  integers, or nothing.
\<close>

datatype lineKind = RccRecord | SphRecord | IntegerList | Ignored

definition classify :: "string \<Rightarrow> lineKind" where
  "classify rawLine =
     (let line = trim rawLine in
      if startsWith ''rcc'' line then
        (if 9 \<le> length (splitWhiteSpace line) then RccRecord else Ignored)
      else if startsWith ''sph'' line then
        (if 6 \<le> length (splitWhiteSpace line) then SphRecord else Ignored)
      else if matchesIntegerList line then IntegerList
      else Ignored)"

text \<open>The identifiers \<^verbatim>\<open>cylinderN\<close> and \<^verbatim>\<open>sphereN\<close>.\<close>

definition cylinderId :: "nat \<Rightarrow> string" where
  "cylinderId i = ''cylinder'' @ showNat i"

definition sphereId :: "nat \<Rightarrow> string" where
  "sphereId i = ''sphere'' @ showNat i"

text \<open>The number of lines of one kind.\<close>

definition countKind :: "lineKind \<Rightarrow> string list \<Rightarrow> nat" where
  "countKind k ls = length (filter (\<lambda>l. classify l = k) ls)"

text \<open>The tokens of the lines of one kind, in file order.\<close>

definition tokensOf :: "lineKind \<Rightarrow> string list \<Rightarrow> string list list" where
  "tokensOf k ls = map (\<lambda>l. splitWhiteSpace (trim l)) (filter (\<lambda>l. classify l = k) ls)"

text \<open>
  The objects of the file in the order in which their lines are met, each kind numbered
  on its own from the given counters.
\<close>

fun objectsOf :: "nat \<Rightarrow> nat \<Rightarrow> string list \<Rightarrow> (objectType \<times> string) list" where
  "objectsOf c s [] = []"
| "objectsOf c s (l # ls) =
     (case classify l of
        RccRecord \<Rightarrow> (CylinderType, cylinderId c) # objectsOf (c + 1) s ls
      | SphRecord \<Rightarrow> (SphereType, sphereId s) # objectsOf c (s + 1) ls
      | IntegerList \<Rightarrow> objectsOf c s ls
      | Ignored \<Rightarrow> objectsOf c s ls)"

text \<open>The state of the loop after the lines read so far.\<close>

definition loopInvariant :: "string list \<Rightarrow> importState \<Rightarrow> bool" where
  "loopInvariant ls st \<longleftrightarrow>
     cylIndex st = 1 + countKind RccRecord ls
   \<and> sphIndex st = 1 + countKind SphRecord ls
   \<and> newCylinderParams st =
       zip (map cylinderId [1..<1 + countKind RccRecord ls]) (map rccCylinder (tokensOf RccRecord ls))
   \<and> newSphereParams st =
       zip (map sphereId [1..<1 + countKind SphRecord ls]) (map sphSphere (tokensOf SphRecord ls))
   \<and> objectOrder st = objectsOf 1 1 ls
   \<and> materialList st =
       (case tokensOf IntegerList ls of [] \<Rightarrow> [] | ts \<Rightarrow> map digitsValue (last ts))"

text \<open>The material of an object of \<^verbatim>\<open>objectOrder\<close>, looked up under its identifier.\<close>

definition objectMaterial :: "importState \<Rightarrow> objectType \<times> string \<Rightarrow> material option" where
  "objectMaterial st obj =
     (case obj of
        (CylinderType, ident) \<Rightarrow>
          map_option cylinder.materialType (map_of (newCylinderParams st) ident)
      | (SphereType, ident) \<Rightarrow>
          map_option sphere.materialType (map_of (newSphereParams st) ident))"

text \<open>Two states of the import that differ in materials at most.\<close>

definition sameGeometry :: "importState \<Rightarrow> importState \<Rightarrow> bool" where
  "sameGeometry a b \<longleftrightarrow>
     map fst (newCylinderParams a) = map fst (newCylinderParams b)
   \<and> map fst (newSphereParams a) = map fst (newSphereParams b)
   \<and> map (\<lambda>(k, c). c\<lparr>cylinder.materialType := Concrete\<rparr>) (newCylinderParams a)
       = map (\<lambda>(k, c). c\<lparr>cylinder.materialType := Concrete\<rparr>) (newCylinderParams b)
   \<and> map (\<lambda>(k, c). c\<lparr>sphere.materialType := Concrete\<rparr>) (newSphereParams a)
       = map (\<lambda>(k, c). c\<lparr>sphere.materialType := Concrete\<rparr>) (newSphereParams b)
   \<and> objectOrder a = objectOrder b \<and> materialList a = materialList b"


text \<open>Two files with one sphere and two lines of integers.\<close>

definition twoCodeLines :: string where
  "twoCodeLines = ''sph 1 0 0 0 1'' @ [CHR 0x0A] @ ''2'' @ [CHR 0x0A] @ ''3''"

definition mismatchedCodeLines :: string where
  "mismatchedCodeLines = ''sph 1 0 0 0 1'' @ [CHR 0x0A] @ ''2'' @ [CHR 0x0A] @ ''3 4''"

section \<open>Notions used to state the properties of the export and of the round trip\<close>

text \<open>The last \<open>k\<close> decimal digits of a number.\<close>

fun lastDigits :: "nat \<Rightarrow> nat \<Rightarrow> string" where
  "lastDigits 0 r = []"
| "lastDigits (Suc k) r = lastDigits k (r div 10) @ [digitChar (r mod 10)]"

text \<open>
  Six decimals: the integer nearest to \<open>\<bar>x\<bar> * 10\<^sup>6\<close> (the larger one of two), the text made of
  the sign, the integer part, a point and exactly six digits, and the number that text
  denotes (the rounding of \<open>x\<close> to six decimals, halves away from zero).
\<close>

definition scaled6 :: "real \<Rightarrow> nat" where
  "scaled6 x = nat \<lfloor>\<bar>x\<bar> * 10 ^ 6 + 1 / 2\<rfloor>"

definition fixed6 :: "real \<Rightarrow> string" where
  "fixed6 x = (if x < 0 then ''-'' else []) @ showNat (scaled6 x div 10 ^ 6) @ ''.''
                @ lastDigits 6 (scaled6 x mod 10 ^ 6)"


text \<open>The pieces of a line joined by single spaces.\<close>

fun joinSpaces :: "string list \<Rightarrow> string" where
  "joinSpaces [] = []"
| "joinSpaces [t] = t"
| "joinSpaces (t # u # ts) = t @ '' '' @ joinSpaces (u # ts)"

text \<open>The lines of a text, each ended by a line feed.\<close>

definition joinLines :: "string list \<Rightarrow> string" where
  "joinLines ls = concat (map (\<lambda>l. l @ [CHR 0x0A]) ls)"

text \<open>A piece of a line: not empty, no white space in it.\<close>

definition isToken :: "string \<Rightarrow> bool" where
  "isToken t \<longleftrightarrow> t \<noteq> [] \<and> (\<forall>c \<in> set t. \<not> isWhiteSpace c)"

text \<open>
  The lines of the file as the specification words them: for a cylinder the base
  \<open>center - 0.5 * height * direction\<close> and the vector \<open>height * direction\<close>, every
  number with six decimals; for a sphere its centre and radius; a zone line for each
  index; the material codes, each followed by a space.
\<close>

definition rccText :: "nat \<Rightarrow> real cylinder \<Rightarrow> string" where
  "rccText index cyl =
     (case axisStart cyl of (baseX, baseY, baseZ) \<Rightarrow>
      case scale3 (height cyl) (direction cyl) of (dirX, dirY, dirZ) \<Rightarrow>
        joinSpaces [''rcc'', showNat index, fixed6 baseX, fixed6 baseY, fixed6 baseZ,
                    fixed6 dirX, fixed6 dirY, fixed6 dirZ, fixed6 (radiusTop cyl)])"

definition sphText :: "nat \<Rightarrow> real sphere \<Rightarrow> string" where
  "sphText index sph =
     (case sphere.position sph of (centerX, centerY, centerZ) \<Rightarrow>
        joinSpaces [''sph'', showNat index, fixed6 centerX, fixed6 centerY, fixed6 centerZ,
                    fixed6 (radius sph)])"

definition zoneText :: "nat \<Rightarrow> string" where
  "zoneText index = ''zn'' @ showNat index @ '' 1 '' @ showNat index"

text \<open>
  The table of the material codes of the format: 1 is concrete, 2 is steel, 3 is wood,
  4 is standard.
\<close>

definition materialCode :: "material \<Rightarrow> nat" where
  "materialCode m = (if m = Concrete then 1 else if m = Steel then 2 else if m = Wood then 3 else 4)"

definition materialText :: "real cylinderParams \<Rightarrow> real sphereParams \<Rightarrow> string" where
  "materialText cyls sphs =
     concat (map (\<lambda>m. showNat (materialCode m) @ '' '')
       (map (\<lambda>(k, c). cylinder.materialType c) cyls @ map (\<lambda>(k, s). sphere.materialType s) sphs))"

text \<open>
  The whole file: cylinders in scene order with the indices from 1, spheres in scene
  order with the indices that follow, \<^verbatim>\<open>end body\<close>, the zone lines, \<^verbatim>\<open>end zone\<close>, the line of
  material codes and the footer.
\<close>

definition exportLines :: "real cylinderParams \<Rightarrow> real sphereParams \<Rightarrow> string list" where
  "exportLines cyls sphs =
     map (\<lambda>(index, (k, c)). rccText index c) (zip [1..<1 + length cyls] cyls)
     @ map (\<lambda>(index, (k, s)). sphText index s)
         (zip [1 + length cyls..<1 + length cyls + length sphs] sphs)
     @ [''end body'']
     @ map zoneText [1..<1 + length cyls + length sphs]
     @ [''end zone'', materialText cyls sphs, ''oesnt worend geom'']"

text \<open>
  The numbers that \<^verbatim>\<open>toFixed\<close> prints in fixed notation, and the scenes in which every
  exported number is one.
\<close>

definition printable :: "real \<Rightarrow> bool" where
  "printable v \<longleftrightarrow> \<bar>v\<bar> < 10 ^ 21"

definition printableCylinder :: "real cylinder \<Rightarrow> bool" where
  "printableCylinder cyl =
     (case axisStart cyl of (baseX, baseY, baseZ) \<Rightarrow>
      case scale3 (height cyl) (direction cyl) of (dirX, dirY, dirZ) \<Rightarrow>
        list_all printable [baseX, baseY, baseZ, dirX, dirY, dirZ, radiusTop cyl])"

definition printableSphere :: "real sphere \<Rightarrow> bool" where
  "printableSphere sph =
     (case sphere.position sph of (centerX, centerY, centerZ) \<Rightarrow>
        list_all printable [centerX, centerY, centerZ, radius sph])"

definition printableScene :: "real cylinderParams \<Rightarrow> real sphereParams \<Rightarrow> bool" where
  "printableScene cyls sphs \<longleftrightarrow>
     list_all (\<lambda>(k, c). printableCylinder c) cyls \<and> list_all (\<lambda>(k, s). printableSphere s) sphs"








text \<open>Concrete scenes used to evaluate the tests.\<close>

definition cylShortY :: "real cylinder" where
  "cylShortY = \<lparr>radiusTop = 1, radiusBottom = 1, height = 0.01, rotation = (0, 0, 0),
                 position = (0, 0, 0), materialType = Concrete\<rparr>"

definition cylShortX :: "real cylinder" where
  "cylShortX = \<lparr>radiusTop = 1, radiusBottom = 1, height = 0.01, rotation = (0, 0, 0.5),
                 position = (10, 0, 0), materialType = Concrete\<rparr>"

definition cylDefault :: "real cylinder" where
  "cylDefault = \<lparr>radiusTop = 1, radiusBottom = 1, height = 2, rotation = (0, 0, 0),
                  position = (0, 0, 0), materialType = Concrete\<rparr>"

definition cylFarAbove :: "real cylinder" where
  "cylFarAbove = \<lparr>radiusTop = 1, radiusBottom = 1, height = 2, rotation = (0, 0, 0),
                   position = (0.5, 100, 0), materialType = Concrete\<rparr>"

definition sphAbove :: "real sphere" where
  "sphAbove = \<lparr>radius = 1.5, position = (0, 3, 0), materialType = Concrete\<rparr>"

definition unitSphereAt :: "real \<Rightarrow> real sphere" where
  "unitSphereAt x = \<lparr>radius = 1, position = (x, 0, 0), materialType = Concrete\<rparr>"

text \<open>A cylinder of height 0, as the Height slider allows, with a unit sphere at its centre.\<close>

definition cylFlat :: "real cylinder" where
  "cylFlat = \<lparr>radiusTop = 1, radiusBottom = 1, height = 0, rotation = (0, 0, 0),
               position = (0, 0, 0), materialType = Concrete\<rparr>"

definition sphCentre :: "real sphere" where
  "sphCentre = \<lparr>radius = 1, position = (0, 0, 0), materialType = Concrete\<rparr>"

text \<open>The default cylinder moved to \<open>x = 10\<^sup>2\<^sup>1\<close>.\<close>

definition cylFarOut :: "real cylinder" where
  "cylFarOut = \<lparr>radiusTop = 1, radiusBottom = 1, height = 2, rotation = (0, 0, 0),
                 position = (10 ^ 21, 0, 0), materialType = Concrete\<rparr>"

text \<open>A cylinder of steel and a sphere of wood.\<close>

definition cylSteel :: "real cylinder" where
  "cylSteel = \<lparr>radiusTop = 1, radiusBottom = 1, height = 2, rotation = (0, 0, 0),
                position = (0, 0, 0), materialType = Steel\<rparr>"

definition sphWood :: "real sphere" where
  "sphWood = \<lparr>radius = 1, position = (4, 0, 0), materialType = Wood\<rparr>"

section \<open>Properties of the orientation and of the vector notions\<close>

lemma eulerToDirection_eq:
  "eulerToDirection (rx, ry, rz) =
     (sin rx * sin ry * cos rz - cos rx * sin rz,
      sin rx * sin ry * sin rz + cos rx * cos rz,
      sin rx * cos ry)"
proof -
  let ?a = "sin rx * sin ry * cos rz - cos rx * sin rz"
  let ?b = "sin rx * sin ry * sin rz + cos rx * cos rz"
  let ?c = "sin rx * cos ry"
  have "?a * ?a + ?b * ?b + ?c * ?c
      = (sin rx)\<^sup>2 * ((sin ry)\<^sup>2 * ((cos rz)\<^sup>2 + (sin rz)\<^sup>2) + (cos ry)\<^sup>2)
        + (cos rx)\<^sup>2 * ((sin rz)\<^sup>2 + (cos rz)\<^sup>2)"
    by (simp add: power2_eq_square algebra_simps
        del: sin_cos_squared_add sin_cos_squared_add2 sin_cos_squared_add3)
  also have "\<dots> = 1"
    by (simp only: sin_cos_squared_add sin_cos_squared_add2 mult_1_right)
  finally have len: "sqrt (?a * ?a + ?b * ?b + ?c * ?c) = 1" by simp
  show ?thesis
    unfolding eulerToDirection_def Let_def using len by simp
qed

lemma norm3_eulerToDirection: "norm3 (eulerToDirection r) = 1"
proof -
  obtain rx ry rz where r: "r = (rx, ry, rz)" by (cases r) auto
  let ?a = "sin rx * sin ry * cos rz - cos rx * sin rz"
  let ?b = "sin rx * sin ry * sin rz + cos rx * cos rz"
  let ?c = "sin rx * cos ry"
  have "?a\<^sup>2 + ?b\<^sup>2 + ?c\<^sup>2
      = (sin rx)\<^sup>2 * ((sin ry)\<^sup>2 * ((cos rz)\<^sup>2 + (sin rz)\<^sup>2) + (cos ry)\<^sup>2)
        + (cos rx)\<^sup>2 * ((sin rz)\<^sup>2 + (cos rz)\<^sup>2)"
    by (simp add: power2_eq_square algebra_simps
        del: sin_cos_squared_add sin_cos_squared_add2 sin_cos_squared_add3)
  also have "\<dots> = 1"
    by (simp only: sin_cos_squared_add sin_cos_squared_add2 mult_1_right)
  finally show ?thesis unfolding r eulerToDirection_eq norm3_def by simp
qed

lemma eulerToDirection_zero: "eulerToDirection (0, 0, 0) = (0, 1, 0)"
  by (simp add: eulerToDirection_eq)

lemma eulerToDirection_quarterZ: "eulerToDirection (0, 0, pi / 2) = (- 1, 0, 0)"
  by (simp add: eulerToDirection_eq)

lemma cross3_scale3:
  "cross3 (scale3 a u) (scale3 b v) = scale3 (a * b) (cross3 u v)"
  by (cases u; cases v) (simp add: cross3_def scale3_def algebra_simps)

lemma cross3_self: "cross3 d d = (0, 0, 0)"
  by (cases d) (simp add: cross3_def)

lemma norm3_scale3: "norm3 (scale3 k u) = \<bar>k\<bar> * norm3 u"
proof -
  obtain a b c where u: "u = (a, b, c)" by (cases u) auto
  have "(k * a)\<^sup>2 + (k * b)\<^sup>2 + (k * c)\<^sup>2 = k\<^sup>2 * (a\<^sup>2 + b\<^sup>2 + c\<^sup>2)"
    by (simp add: algebra_simps)
  then show ?thesis
    by (simp add: u norm3_def scale3_def real_sqrt_mult)
qed

lemma dot3_scale3_right: "dot3 w (scale3 k u) = k * dot3 w u"
  by (cases u; cases w) (simp add: dot3_def scale3_def algebra_simps)

text \<open>The Cauchy--Schwarz inequality, from Lagrange's identity.\<close>

lemma dot3_le_norm3: "\<bar>dot3 w d\<bar> \<le> norm3 w * norm3 d"
proof -
  obtain a b c where w: "w = (a, b, c)" by (cases w) auto
  obtain x y z where d: "d = (x, y, z)" by (cases d) auto
  have "(a\<^sup>2 + b\<^sup>2 + c\<^sup>2) * (x\<^sup>2 + y\<^sup>2 + z\<^sup>2) - (a * x + b * y + c * z)\<^sup>2
      = (a * y - b * x)\<^sup>2 + (a * z - c * x)\<^sup>2 + (b * z - c * y)\<^sup>2"
    by (simp add: power2_eq_square algebra_simps)
  then have "(a * x + b * y + c * z)\<^sup>2 \<le> (a\<^sup>2 + b\<^sup>2 + c\<^sup>2) * (x\<^sup>2 + y\<^sup>2 + z\<^sup>2)"
    by (smt (verit) zero_le_power2)
  then have "sqrt ((a * x + b * y + c * z)\<^sup>2)
               \<le> sqrt ((a\<^sup>2 + b\<^sup>2 + c\<^sup>2) * (x\<^sup>2 + y\<^sup>2 + z\<^sup>2))"
    by (rule real_sqrt_le_mono)
  then show ?thesis
    by (simp add: w d dot3_def norm3_def real_sqrt_mult)
qed

lemma sqrt_less_iff_square:
  fixes x y :: real
  assumes "0 \<le> y"
  shows "sqrt x < y \<longleftrightarrow> x < y\<^sup>2"
proof -
  have "y = sqrt (y\<^sup>2)" using assms by simp
  then have "sqrt x < y \<longleftrightarrow> sqrt x < sqrt (y\<^sup>2)" by simp
  then show ?thesis by (simp only: real_sqrt_less_iff)
qed

section \<open>Sphere against sphere\<close>

lemma checkSphereCollision_iff:
  "checkSphereCollision s1 s2 \<longleftrightarrow>
     dist3 (sphere.position s1) (sphere.position s2) < radius s1 + radius s2 - 0.01"
  by (simp add: checkSphereCollision_def dist3_def norm3_def sub3_def Let_def split: prod.splits)

lemma unitSphereAt_fields:
  "radius (unitSphereAt x) = 1" "sphere.position (unitSphereAt x) = (x, 0, 0)"
  by (simp_all add: unitSphereAt_def)

lemma dist3_unitSphereAt:
  "x \<le> y \<Longrightarrow> dist3 (sphere.position (unitSphereAt x)) (sphere.position (unitSphereAt y)) = y - x"
  by (simp add: unitSphereAt_fields dist3_def sub3_def norm3_def)

text \<open>
  C4. Two spheres collide exactly when the distance of their centres is strictly below
  \<open>r1 + r2 - 0.01\<close>, and \<open>detectCollisions\<close> on a scene of two spheres reports that pair
  and nothing else: one pair for unit spheres 1.5 apart, none for unit spheres 2 apart.
\<close>

theorem sphere_collision_threshold:
  "(checkSphereCollision s1 s2 \<longleftrightarrow>
      dist3 (sphere.position s1) (sphere.position s2) < radius s1 + radius s2 - 0.01)
   \<and> detectCollisions [] [(i, s1), (j, s2)] =
       (if dist3 (sphere.position s1) (sphere.position s2) < radius s1 + radius s2 - 0.01
        then [(i, j)] else [])
   \<and> (radius s1 = 1 \<and> radius s2 = 1 \<and> dist3 (sphere.position s1) (sphere.position s2) = 1.5
        \<longrightarrow> detectCollisions [] [(i, s1), (j, s2)] = [(i, j)])
   \<and> (radius s1 = 1 \<and> radius s2 = 1 \<and> dist3 (sphere.position s1) (sphere.position s2) = 2
        \<longrightarrow> detectCollisions [] [(i, s1), (j, s2)] = [])"
  by (simp add: detectCollisions_def checkSphereCollision_iff)

theorem sphere_collision_threshold_witness:
  "detectCollisions [] [(''sphere1'', unitSphereAt 0), (''sphere2'', unitSphereAt 1.5)]
     = [(''sphere1'', ''sphere2'')]
   \<and> detectCollisions [] [(''sphere1'', unitSphereAt 0), (''sphere2'', unitSphereAt 2)] = []"
proof -
  have near: "dist3 (sphere.position (unitSphereAt 0)) (sphere.position (unitSphereAt 1.5)) = 1.5"
    by (simp add: dist3_unitSphereAt)
  have tangent: "dist3 (sphere.position (unitSphereAt 0)) (sphere.position (unitSphereAt 2)) = 2"
    by (simp add: dist3_unitSphereAt)
  have r: "radius (unitSphereAt 0) = 1" "radius (unitSphereAt 1.5) = 1" "radius (unitSphereAt 2) = 1"
    by (simp_all only: unitSphereAt_fields)
  from sphere_collision_threshold [of "unitSphereAt 0" "unitSphereAt 1.5" "''sphere1''" "''sphere2''"]
    sphere_collision_threshold [of "unitSphereAt 0" "unitSphereAt 2" "''sphere1''" "''sphere2''"]
    near tangent r
  show ?thesis by blast
qed

section \<open>Cylinder against cylinder\<close>

lemma checkCylinderCollision_vec:
  "checkCylinderCollision c1 c2 =
     (let cr = cross3 (scale3 (height c1) (direction c1)) (scale3 (height c2) (direction c2)) in
      if norm3 cr < 0.001
      then dist3 (cylinder.position c1) (cylinder.position c2) < radiusTop c1 + radiusTop c2
      else \<bar>dot3 (sub3 (axisStart c2) (axisStart c1)) cr\<bar> / norm3 cr
             < radiusTop c1 + radiusTop c2)"
proof -
  obtain x1 y1 z1 where p1: "cylinder.position c1 = (x1, y1, z1)"
    by (cases "cylinder.position c1") auto
  obtain x2 y2 z2 where p2: "cylinder.position c2 = (x2, y2, z2)"
    by (cases "cylinder.position c2") auto
  obtain a1 b1 e1 where d1: "direction c1 = (a1, b1, e1)" by (cases "direction c1") auto
  obtain a2 b2 e2 where d2: "direction c2 = (a2, b2, e2)" by (cases "direction c2") auto
  note d1' = d1[unfolded direction_def] and d2' = d2[unfolded direction_def]
  show ?thesis
    unfolding checkCylinderCollision_def axisStart_def
    by (simp add: p1 p2 d1 d2 d1' d2' Let_def cross3_def scale3_def norm3_def dist3_def
        sub3_def dot3_def power2_eq_square mult.commute)
qed

lemma checkCylinderCollision_byAxes:
  "checkCylinderCollision c1 c2 = cylinderCollisionByAxes c1 c2"
proof -
  let ?k = "height c1 * height c2"
  let ?cr = "cross3 (direction c1) (direction c2)"
  let ?w = "sub3 (axisStart c2) (axisStart c1)"
  show ?thesis
  proof (cases "\<bar>?k\<bar> * norm3 ?cr < 0.001")
    case True
    then show ?thesis
      by (simp add: checkCylinderCollision_vec cylinderCollisionByAxes_def Let_def
          cross3_scale3 norm3_scale3)
  next
    case False
    then have k: "?k \<noteq> 0" by auto
    have "\<bar>dot3 ?w (scale3 ?k ?cr)\<bar> / norm3 (scale3 ?k ?cr) = \<bar>dot3 ?w ?cr\<bar> / norm3 ?cr"
      using k by (simp add: dot3_scale3_right norm3_scale3 abs_mult)
    with False show ?thesis
      by (simp add: checkCylinderCollision_vec cylinderCollisionByAxes_def Let_def
          cross3_scale3 norm3_scale3)
  qed
qed

lemma cylShortY_fields:
  "radiusTop cylShortY = 1" "height cylShortY = 1 / 100"
  "cylinder.position cylShortY = (0, 0, 0)" "rotation cylShortY = (0, 0, 0)"
  by (simp_all add: cylShortY_def)

lemma cylShortX_fields:
  "radiusTop cylShortX = 1" "height cylShortX = 1 / 100"
  "cylinder.position cylShortX = (10, 0, 0)" "rotation cylShortX = (0, 0, 1 / 2)"
  by (simp_all add: cylShortX_def)

lemma direction_cylShortY: "direction cylShortY = (0, 1, 0)"
  by (simp add: direction_def cylShortY_fields timesPi_def eulerToDirection_zero)

lemma direction_cylShortX: "direction cylShortX = (- 1, 0, 0)"
  by (simp add: direction_def cylShortX_fields timesPi_def eulerToDirection_quarterZ)

lemma cylShort_asSpecified: "cylinderCollisionAsSpecified cylShortY cylShortX"
  by (simp add: cylinderCollisionAsSpecified_def Let_def cross3_def norm3_def dot3_def
      sub3_def axisStart_def scale3_def direction_cylShortY direction_cylShortX
      cylShortY_fields cylShortX_fields)

lemma cylShort_byAxes: "\<not> cylinderCollisionByAxes cylShortY cylShortX"
  by (simp add: cylinderCollisionByAxes_def Let_def cross3_def direction_cylShortY
      direction_cylShortX norm3_def dist3_def sub3_def cylShortY_fields cylShortX_fields)

text \<open>
  C5, as stated, fails: two cylinders of height 0.01 with perpendicular axes (directions
  \<open>(0, 1, 0)\<close> and \<open>(-1, 0, 0)\<close>, cross product of length 1), the second centred 10 away on
  the line of its own axis. The two axis lines meet, so the test of the specification
  reports a collision; the code finds the cross product of the axis vectors of length
  \<open>0.0001 < 0.001\<close>, takes the centre distance \<open>10\<close> and reports none.
\<close>

theorem cylinder_parallel_test_counterexample:
  "cylinderCollisionAsSpecified cylShortY cylShortX \<and> \<not> checkCylinderCollision cylShortY cylShortX"
  using cylShort_asSpecified cylShort_byAxes by (simp add: checkCylinderCollision_byAxes)

text \<open>
  C5, amended. The parallel test is made on the cross product of the two axis vectors
  \<open>end - start\<close>, each of length the cylinder's height: the centre distance decides when
  \<open>\<bar>h1 * h2\<bar>\<close> times the length of the cross product of the unit directions is below
  \<open>0.001\<close>, and otherwise the distance of the two axis lines, with no clamping.
\<close>

theorem cylinder_collision_by_axes:
  "checkCylinderCollision cyl1 cyl2 =
     (let cr = cross3 (direction cyl1) (direction cyl2) in
      if \<bar>height cyl1 * height cyl2\<bar> * norm3 cr < 0.001
      then dist3 (cylinder.position cyl1) (cylinder.position cyl2) < radiusTop cyl1 + radiusTop cyl2
      else \<bar>dot3 (sub3 (axisStart cyl2) (axisStart cyl1)) cr\<bar> / norm3 cr
             < radiusTop cyl1 + radiusTop cyl2)"
  using checkCylinderCollision_byAxes [of cyl1 cyl2] by (simp only: cylinderCollisionByAxes_def)

theorem cylinder_collision_by_axes_witness:
  "\<bar>height cylShortY * height cylShortX\<bar> * norm3 (cross3 (direction cylShortY) (direction cylShortX))
     < 0.001
   \<and> \<not> dist3 (cylinder.position cylShortY) (cylinder.position cylShortX)
         < radiusTop cylShortY + radiusTop cylShortX
   \<and> \<not> checkCylinderCollision cylShortY cylShortX"
  using cylinder_collision_by_axes [of cylShortY cylShortX]
  by (simp add: Let_def cross3_def direction_cylShortY direction_cylShortX norm3_def dist3_def
      sub3_def cylShortY_fields cylShortX_fields)

lemma parallel_center_test:
  assumes "direction c1 = direction c2"
  shows "checkCylinderCollision c1 c2 \<longleftrightarrow>
           dist3 (cylinder.position c1) (cylinder.position c2) < radiusTop c1 + radiusTop c2"
  using assms
  by (simp add: checkCylinderCollision_byAxes cylinderCollisionByAxes_def cross3_self norm3_def)

lemma axial_le_dist:
  "\<bar>axialOffset c1 c2\<bar> \<le> dist3 (cylinder.position c1) (cylinder.position c2)"
  using dot3_le_norm3 [of "sub3 (cylinder.position c2) (cylinder.position c1)" "direction c1"]
  by (simp add: axialOffset_def dist3_def direction_def norm3_eulerToDirection)

lemma cylDefault_fields:
  "radiusTop cylDefault = 1" "height cylDefault = 2"
  "cylinder.position cylDefault = (0, 0, 0)" "rotation cylDefault = (0, 0, 0)"
  by (simp_all add: cylDefault_def)

lemma cylFarAbove_fields:
  "radiusTop cylFarAbove = 1" "height cylFarAbove = 2"
  "cylinder.position cylFarAbove = (1 / 2, 100, 0)" "rotation cylFarAbove = (0, 0, 0)"
  by (simp_all add: cylFarAbove_def)

lemma direction_cylDefault: "direction cylDefault = (0, 1, 0)"
  by (simp add: direction_def cylDefault_fields timesPi_def eulerToDirection_zero)

lemma direction_cylFarAbove: "direction cylFarAbove = (0, 1, 0)"
  by (simp add: direction_def cylFarAbove_fields timesPi_def eulerToDirection_zero)

lemma axialOffset_far: "axialOffset cylDefault cylFarAbove = 100"
  by (simp add: axialOffset_def dot3_def sub3_def direction_cylDefault cylDefault_fields
      cylFarAbove_fields)

lemma perpendicularOffset_far: "perpendicularOffset cylDefault cylFarAbove = 1 / 2"
  by (simp add: perpendicularOffset_def axialOffset_far sub3_def scale3_def norm3_def
      direction_cylDefault cylDefault_fields cylFarAbove_fields)

lemma far_no_collision: "\<not> cylinderCollisionByAxes cylDefault cylFarAbove"
  by (simp add: cylinderCollisionByAxes_def Let_def cross3_def direction_cylDefault
      direction_cylFarAbove norm3_def dist3_def sub3_def cylDefault_fields cylFarAbove_fields
      sqrt_less_iff_square power2_eq_square)

text \<open>
  C6, as stated, fails: two cylinders of radius 1 and height 2 with the same direction
  \<open>(0, 1, 0)\<close>, centres offset by 0.5 perpendicular to the axis (less than \<open>r1 + r2 = 2\<close>)
  and by 100 along it. No collision is reported.
\<close>

theorem parallel_far_apart_counterexample:
  "direction cylDefault = direction cylFarAbove
   \<and> perpendicularOffset cylDefault cylFarAbove < radiusTop cylDefault + radiusTop cylFarAbove
   \<and> axialOffset cylDefault cylFarAbove = 100
   \<and> \<not> checkCylinderCollision cylDefault cylFarAbove
   \<and> detectCollisions [(''cylinder1'', cylDefault), (''cylinder2'', cylFarAbove)] [] = []"
  using far_no_collision
  by (simp add: direction_cylDefault direction_cylFarAbove perpendicularOffset_far
      axialOffset_far cylDefault_fields cylFarAbove_fields checkCylinderCollision_byAxes
      detectCollisions_def)

text \<open>
  C6, amended. For two cylinders with the same axis direction the test is the distance of
  the centres against \<open>r1 + r2\<close>; the offset along the axis is part of that distance, so
  two such cylinders at least \<open>r1 + r2\<close> apart along the axis are reported as not
  colliding, whatever their perpendicular offset.
\<close>

theorem parallel_far_apart_no_collision:
  assumes "direction cyl1 = direction cyl2"
  shows "(checkCylinderCollision cyl1 cyl2 \<longleftrightarrow>
            dist3 (cylinder.position cyl1) (cylinder.position cyl2) < radiusTop cyl1 + radiusTop cyl2)
       \<and> (radiusTop cyl1 + radiusTop cyl2 \<le> \<bar>axialOffset cyl1 cyl2\<bar>
            \<longrightarrow> \<not> checkCylinderCollision cyl1 cyl2)"
  using parallel_center_test [OF assms] axial_le_dist [of cyl1 cyl2] by auto

theorem parallel_far_apart_no_collision_witness:
  "direction cylDefault = direction cylFarAbove
   \<and> radiusTop cylDefault + radiusTop cylFarAbove \<le> \<bar>axialOffset cylDefault cylFarAbove\<bar>
   \<and> \<not> checkCylinderCollision cylDefault cylFarAbove"
proof -
  have d: "direction cylDefault = direction cylFarAbove"
    by (simp add: direction_cylDefault direction_cylFarAbove)
  have a: "radiusTop cylDefault + radiusTop cylFarAbove \<le> \<bar>axialOffset cylDefault cylFarAbove\<bar>"
    by (simp add: axialOffset_far cylDefault_fields cylFarAbove_fields)
  from parallel_far_apart_no_collision [OF d] a d show ?thesis by blast
qed

section \<open>Cylinder against sphere\<close>

lemma norm3_axis: "norm3 (sub3 (axisEnd c) (axisStart c)) = \<bar>height c\<bar>"
proof -
  have "sub3 (axisEnd c) (axisStart c) = scale3 (height c) (direction c)"
    by (cases "cylinder.position c"; cases "direction c")
       (simp add: axisEnd_def axisStart_def sub3_def add3_def scale3_def)
  then show ?thesis
    by (simp add: norm3_scale3 direction_def norm3_eulerToDirection)
qed

lemma checkCylinderSphereCollision_vec:
  "checkCylinderSphereCollision cyl sph =
     (let s = sphere.position sph;
          axis = sub3 (axisEnd cyl) (axisStart cyl);
          axisLength = norm3 axis in
      if axisLength\<^sup>2 = 0 then False
      else
      let t = dot3 (sub3 s (axisStart cyl)) axis / axisLength\<^sup>2;
          tClamped = max 0 (min 1 t);
          closest = add3 (axisStart cyl) (scale3 tClamped axis) in
      if tClamped = 0 \<or> tClamped = 1
      then
        let cap = (if tClamped = 0 then axisStart cyl else axisEnd cyl);
            unit = scale3 (1 / axisLength) axis;
            axial = dot3 (sub3 s cap) unit;
            inPlane = sub3 s (scale3 axial unit);
            radial = dist3 cap inPlane in
        if radial \<le> radiusTop cyl then \<bar>axial\<bar> < radius sph
        else sqrt ((radial - radiusTop cyl)\<^sup>2 + axial\<^sup>2) < radius sph
      else dist3 closest s < radiusTop cyl + radius sph)"
proof -
  obtain cx cy cz where p: "cylinder.position cyl = (cx, cy, cz)"
    by (cases "cylinder.position cyl") auto
  obtain sx sy sz where q: "sphere.position sph = (sx, sy, sz)"
    by (cases "sphere.position sph") auto
  obtain d0 d1 d2 where d: "direction cyl = (d0, d1, d2)" by (cases "direction cyl") auto
  note d' = d[unfolded direction_def]
  show ?thesis
    unfolding checkCylinderSphereCollision_def axisStart_def axisEnd_def
    by (simp add: p q d d' Let_def scale3_def norm3_def dist3_def add3_def
        sub3_def dot3_def mult.commute)
qed

lemma sphAbove_fields: "radius sphAbove = 3 / 2" "sphere.position sphAbove = (0, 3, 0)"
  by (simp_all add: sphAbove_def)

lemma sphAbove_asSpecified: "\<not> cylinderSphereAsSpecified cylDefault sphAbove"
  by (simp add: cylinderSphereAsSpecified_def Let_def axisStart_def axisEnd_def
      direction_cylDefault cylDefault_fields sphAbove_fields
      sub3_def add3_def scale3_def norm3_def dot3_def dist3_def)

lemma cylFlat_fields:
  "radiusTop cylFlat = 1" "height cylFlat = 0"
  "cylinder.position cylFlat = (0, 0, 0)" "rotation cylFlat = (0, 0, 0)"
  by (simp_all add: cylFlat_def)

lemma sphCentre_fields: "radius sphCentre = 1" "sphere.position sphCentre = (0, 0, 0)"
  by (simp_all add: sphCentre_def)

lemma checkCylinderSphereCollision_flat:
  "height cyl = 0 \<Longrightarrow> \<not> checkCylinderSphereCollision cyl sph"
  unfolding checkCylinderSphereCollision_vec Let_def by (simp add: norm3_axis)

lemma sphCentre_asSpecified: "cylinderSphereAsSpecified cylFlat sphCentre"
  by (simp add: cylinderSphereAsSpecified_def Let_def axisStart_def axisEnd_def
      cylFlat_fields sphCentre_fields direction_def timesPi_def eulerToDirection_zero
      sub3_def add3_def scale3_def norm3_def dot3_def dist3_def)

text \<open>
  C7, as stated for every cylinder--sphere pair, fails at a cylinder of height 0, a value
  the Height slider reaches. The axis segment of \<open>cylFlat\<close> is the single point at its
  centre and the unit sphere \<open>sphCentre\<close> is centred there: the specified test clamps to
  that end point, finds the in-plane offset 0 within \<open>radiusTop\<close> and the axial offset 0
  below the sphere radius, and reports the pair. The code divides by the squared length
  of the axis, 0: the parameter is not a number, it is neither 0 nor 1, the side branch
  compares a distance that is not a number, and no collision is reported.
\<close>

theorem cylinder_sphere_zero_height_counterexample:
  "height cylFlat = 0
   \<and> cylinderSphereAsSpecified cylFlat sphCentre
   \<and> \<not> checkCylinderSphereCollision cylFlat sphCentre"
  using checkCylinderSphereCollision_flat [of cylFlat sphCentre] sphCentre_asSpecified
  by (simp add: cylFlat_fields)

text \<open>
  C7, amended. For a cylinder of non-zero height the cylinder--sphere test is the one
  specified: the sphere centre is projected on the axis segment with the parameter clamped to
  \<open>[0, 1]\<close>; strictly inside, the distance to the closest axis point is compared with
  \<open>cylRadius + sphereRadius\<close>; at an end, the cap test compares the axial offset with the
  sphere radius when the in-plane offset is within \<open>radiusTop\<close>, and the distance to the
  rim otherwise. All comparisons with the radii are strict.
\<close>

theorem cylinder_sphere_test:
  assumes "height cyl \<noteq> 0"
  shows "checkCylinderSphereCollision cyl sph = cylinderSphereAsSpecified cyl sph"
proof -
  let ?axis = "sub3 (axisEnd cyl) (axisStart cyl)"
  define tc where
    "tc = max 0 (min 1 (dot3 (sub3 (sphere.position sph) (axisStart cyl)) ?axis / (norm3 ?axis)\<^sup>2))"
  have bounds: "0 \<le> tc" "tc \<le> 1" by (simp_all add: tc_def)
  have n: "((norm3 ?axis)\<^sup>2 = 0) = False"
    using assms by (simp add: norm3_axis)
  show ?thesis
  proof (cases "0 < tc \<and> tc < 1")
    case True
    then have e: "(tc = 0 \<or> tc = 1) = False" by auto
    from True have p: "(0 < tc \<and> tc < 1) = True" by simp
    show ?thesis
      unfolding checkCylinderSphereCollision_vec cylinderSphereAsSpecified_def Let_def
        tc_def[symmetric]
      by (simp only: n e p if_False if_True)
  next
    case False
    with bounds have e: "(tc = 0 \<or> tc = 1) = True" by auto
    from False have p: "(0 < tc \<and> tc < 1) = False" by simp
    show ?thesis
      unfolding checkCylinderSphereCollision_vec cylinderSphereAsSpecified_def Let_def
        tc_def[symmetric]
      by (simp only: n e p if_False if_True)
  qed
qed

theorem cylinder_sphere_test_witness:
  "height cylDefault \<noteq> 0 \<and> \<not> cylinderSphereAsSpecified cylDefault sphAbove
   \<and> \<not> checkCylinderSphereCollision cylDefault sphAbove"
  using cylinder_sphere_test [of cylDefault sphAbove] sphAbove_asSpecified
  by (simp add: cylDefault_fields)

section \<open>Digits and indices\<close>

lemma lt10_cases: "d < 10 \<Longrightarrow> d \<in> {0, 1, 2, 3, 4, 5, 6, 7, 8, 9 :: nat}"
  by auto

lemma digitChar_props:
  assumes "d < 10"
  shows "isDigit (digitChar d)" "digitValue (digitChar d) = d" "\<not> isWhiteSpace (digitChar d)"
  using lt10_cases[OF assms]
  by (auto simp: digitChar_def isDigit_def digitValue_def isWhiteSpace_def)

lemma isDigit_not_ws: "isDigit c \<Longrightarrow> \<not> isWhiteSpace c"
  by (auto simp: isDigit_def isWhiteSpace_def)

lemma digitsValue_snoc: "digitsValue (ds @ [c]) = 10 * digitsValue ds + digitValue c"
  by (simp add: digitsValue_def)

lemma digitsValue_showNat: "digitsValue (showNat n) = n"
proof (induction n rule: showNat.induct)
  case (1 n)
  show ?case
  proof (cases "n < 10")
    case True
    then show ?thesis
      by (subst showNat.simps) (simp add: digitsValue_def digitChar_props)
  next
    case False
    with 1 show ?thesis
      by (subst showNat.simps) (simp add: digitsValue_snoc digitChar_props)
  qed
qed

lemma showNat_inj: "showNat a = showNat b \<Longrightarrow> a = b"
  by (metis digitsValue_showNat)

lemma showNat_digits: "list_all isDigit (showNat n)"
proof (induction n rule: showNat.induct)
  case (1 n)
  show ?case
  proof (cases "n < 10")
    case True
    then show ?thesis by (subst showNat.simps) (simp add: digitChar_props)
  next
    case False
    with 1 show ?thesis by (subst showNat.simps) (simp add: digitChar_props)
  qed
qed

lemma showNat_nonempty: "showNat n \<noteq> []"
  by (subst showNat.simps) simp

section \<open>The loop over the lines\<close>

lemma importLine_classify:
  "importLine st l =
     (case classify l of
        RccRecord \<Rightarrow>
          st\<lparr>newCylinderParams :=
                assign (cylinderId (cylIndex st)) (rccCylinder (splitWhiteSpace (trim l)))
                  (newCylinderParams st),
             objectOrder := objectOrder st @ [(CylinderType, cylinderId (cylIndex st))],
             cylIndex := cylIndex st + 1\<rparr>
      | SphRecord \<Rightarrow>
          st\<lparr>newSphereParams :=
                assign (sphereId (sphIndex st)) (sphSphere (splitWhiteSpace (trim l)))
                  (newSphereParams st),
             objectOrder := objectOrder st @ [(SphereType, sphereId (sphIndex st))],
             sphIndex := sphIndex st + 1\<rparr>
      | IntegerList \<Rightarrow>
          st\<lparr>parsingMaterials := True,
             materialList := map digitsValue (splitWhiteSpace (trim l))\<rparr>
      | Ignored \<Rightarrow> st)"
  by (simp add: importLine_def classify_def Let_def cylinderId_def sphereId_def)

lemma assign_fresh: "k \<notin> fst ` set al \<Longrightarrow> assign k v al = al @ [(k, v)]"
  by (induction al) auto

lemma cylinderId_inj: "cylinderId a = cylinderId b \<longleftrightarrow> a = b"
  by (auto simp: cylinderId_def dest: showNat_inj)

lemma sphereId_inj: "sphereId a = sphereId b \<longleftrightarrow> a = b"
  by (auto simp: sphereId_def dest: showNat_inj)

lemma countKind_Cons:
  "countKind k (l # ls) = (if classify l = k then 1 else 0) + countKind k ls"
  by (simp add: countKind_def)

lemma objectsOf_snoc:
  "objectsOf c s (ls @ [l]) =
     objectsOf c s ls @
     (case classify l of
        RccRecord \<Rightarrow> [(CylinderType, cylinderId (c + countKind RccRecord ls))]
      | SphRecord \<Rightarrow> [(SphereType, sphereId (s + countKind SphRecord ls))]
      | IntegerList \<Rightarrow> []
      | Ignored \<Rightarrow> [])"
proof (induction ls arbitrary: c s)
  case Nil
  show ?case by (simp add: countKind_def split: lineKind.splits)
next
  case (Cons a ls)
  show ?case
    by (cases "classify a") (simp_all add: Cons.IH countKind_Cons split: lineKind.splits)
qed

lemma countKind_snoc:
  "countKind k (ls @ [l]) = countKind k ls + (if classify l = k then 1 else 0)"
  by (simp add: countKind_def)

lemma tokensOf_snoc:
  "tokensOf k (ls @ [l]) = tokensOf k ls @ (if classify l = k then [splitWhiteSpace (trim l)] else [])"
  by (simp add: tokensOf_def)

lemma length_tokensOf: "length (tokensOf k ls) = countKind k ls"
  by (simp add: tokensOf_def countKind_def)

lemma zip_snoc_ids:
  "length ys = n \<Longrightarrow>
   zip (map f [1..<1 + (n + 1)]) (ys @ [y]) = zip (map f [1..<1 + n]) ys @ [(f (1 + n), y)]"
  by simp

lemma loopInvariant_step:
  assumes "loopInvariant ls st"
  shows "loopInvariant (ls @ [l]) (importLine st l)"
proof (cases "classify l")
  case RccRecord
  let ?n = "countKind RccRecord ls"
  have fresh: "cylinderId (1 + ?n) \<notin> fst ` set (newCylinderParams st)"
  proof
    assume "cylinderId (1 + ?n) \<in> fst ` set (newCylinderParams st)"
    then have "cylinderId (1 + ?n) \<in> set (map cylinderId [1..<1 + ?n])"
      using assms by (auto simp: loopInvariant_def dest!: set_zip_leftD)
    then show False by (auto simp: cylinderId_inj)
  qed
  show ?thesis
    using assms RccRecord fresh
    by (simp add: loopInvariant_def importLine_classify countKind_snoc tokensOf_snoc
        assign_fresh length_tokensOf objectsOf_snoc)
next
  case SphRecord
  let ?n = "countKind SphRecord ls"
  have fresh: "sphereId (1 + ?n) \<notin> fst ` set (newSphereParams st)"
  proof
    assume "sphereId (1 + ?n) \<in> fst ` set (newSphereParams st)"
    then have "sphereId (1 + ?n) \<in> set (map sphereId [1..<1 + ?n])"
      using assms by (auto simp: loopInvariant_def dest!: set_zip_leftD)
    then show False by (auto simp: sphereId_inj)
  qed
  show ?thesis
    using assms SphRecord fresh
    by (simp add: loopInvariant_def importLine_classify countKind_snoc tokensOf_snoc
        assign_fresh length_tokensOf objectsOf_snoc)
next
  case IntegerList
  then show ?thesis
    using assms
    by (simp add: loopInvariant_def importLine_classify countKind_snoc tokensOf_snoc
        objectsOf_snoc split: list.splits)
next
  case Ignored
  then show ?thesis
    using assms
    by (simp add: loopInvariant_def importLine_classify countKind_snoc tokensOf_snoc
        objectsOf_snoc)
qed

lemma loopInvariant_foldl:
  "loopInvariant ls st \<Longrightarrow> loopInvariant (ls @ ms) (foldl importLine st ms)"
proof (induction ms arbitrary: ls st)
  case Nil
  then show ?case by simp
next
  case (Cons m ms)
  from Cons.IH[OF loopInvariant_step[OF Cons.prems, of m]] show ?case by simp
qed

lemma loopInvariant_initial: "loopInvariant [] initialImportState"
  by (simp add: loopInvariant_def initialImportState_def countKind_def tokensOf_def)

lemma loopInvariant_lines: "loopInvariant ls (foldl importLine initialImportState ls)"
  using loopInvariant_foldl[OF loopInvariant_initial, of ls] by simp

section \<open>The assignment of materials\<close>

lemma map_of_setCylinderMaterial:
  "map_of (setCylinderMaterial k m al) k' =
     (if k' = k then map_option (\<lambda>c. c\<lparr>cylinder.materialType := m\<rparr>) (map_of al k)
      else map_of al k')"
  by (induction al) auto

lemma map_of_setSphereMaterial:
  "map_of (setSphereMaterial k m al) k' =
     (if k' = k then map_option (\<lambda>c. c\<lparr>sphere.materialType := m\<rparr>) (map_of al k)
      else map_of al k')"
  by (induction al) auto

lemma objectMaterial_assignMaterial:
  "objectMaterial (assignMaterial st (m, obj)) obj' =
     (if obj' = obj then map_option (\<lambda>_. materialMapReverse m) (objectMaterial st obj)
      else objectMaterial st obj')"
  by (cases obj; cases obj'; cases "fst obj"; cases "fst obj'")
     (auto simp: objectMaterial_def assignMaterial_def map_of_setCylinderMaterial
        map_of_setSphereMaterial option.map_comp comp_def)

lemma objectMaterial_foldl_other:
  "obj' \<notin> set os \<Longrightarrow>
   objectMaterial (foldl assignMaterial st (zip ms os)) obj' = objectMaterial st obj'"
proof (induction os arbitrary: ms st)
  case Nil
  then show ?case by simp
next
  case (Cons obj os)
  then show ?case
    by (cases ms) (auto simp: objectMaterial_assignMaterial)
qed

lemma objectMaterial_foldl:
  assumes "distinct os" "length ms = length os"
    and "\<forall>obj \<in> set os. objectMaterial st obj \<noteq> None"
  shows "map (objectMaterial (foldl assignMaterial st (zip ms os))) os
           = map (\<lambda>m. Some (materialMapReverse m)) ms"
  using assms
proof (induction os arbitrary: ms st)
  case Nil
  then show ?case by simp
next
  case (Cons obj os)
  then obtain m ms' where ms: "ms = m # ms'" by (cases ms) auto
  let ?st = "assignMaterial st (m, obj)"
  have head: "objectMaterial (foldl assignMaterial ?st (zip ms' os)) obj
                = Some (materialMapReverse m)"
    using Cons.prems by (auto simp: objectMaterial_foldl_other objectMaterial_assignMaterial)
  have "\<forall>x \<in> set os. objectMaterial ?st x \<noteq> None"
    using Cons.prems by (auto simp: objectMaterial_assignMaterial)
  with Cons.IH[of ms' ?st] Cons.prems ms
  have "map (objectMaterial (foldl assignMaterial ?st (zip ms' os))) os
          = map (\<lambda>m. Some (materialMapReverse m)) ms'"
    by simp
  with head show ?case by (simp add: ms)
qed

lemma objectsOf_cylinder_mem:
  "(CylinderType, i) \<in> set (objectsOf c s ls) \<Longrightarrow>
     \<exists>j. c \<le> j \<and> j < c + countKind RccRecord ls \<and> i = cylinderId j"
proof (induction ls arbitrary: c s)
  case Nil
  then show ?case by simp
next
  case (Cons l ls)
  show ?case
  proof (cases "classify l")
    case RccRecord
    with Cons.prems have "i = cylinderId c \<or> (CylinderType, i) \<in> set (objectsOf (c + 1) s ls)"
      by auto
    then show ?thesis
    proof
      assume "i = cylinderId c"
      then show ?thesis using RccRecord by (auto simp: countKind_Cons)
    next
      assume "(CylinderType, i) \<in> set (objectsOf (c + 1) s ls)"
      from Cons.IH[OF this] obtain j where "c + 1 \<le> j" "j < c + 1 + countKind RccRecord ls"
        "i = cylinderId j" by blast
      then show ?thesis using RccRecord by (intro exI[of _ j]) (simp add: countKind_Cons)
    qed
  next
    case SphRecord
    with Cons.prems have "(CylinderType, i) \<in> set (objectsOf c (s + 1) ls)" by auto
    from Cons.IH[OF this] show ?thesis using SphRecord by (auto simp: countKind_Cons)
  next
    case IntegerList
    with Cons.prems have "(CylinderType, i) \<in> set (objectsOf c s ls)" by auto
    from Cons.IH[OF this] show ?thesis using IntegerList by (auto simp: countKind_Cons)
  next
    case Ignored
    with Cons.prems have "(CylinderType, i) \<in> set (objectsOf c s ls)" by auto
    from Cons.IH[OF this] show ?thesis using Ignored by (auto simp: countKind_Cons)
  qed
qed

lemma objectsOf_sphere_mem:
  "(SphereType, i) \<in> set (objectsOf c s ls) \<Longrightarrow>
     \<exists>j. s \<le> j \<and> j < s + countKind SphRecord ls \<and> i = sphereId j"
proof (induction ls arbitrary: c s)
  case Nil
  then show ?case by simp
next
  case (Cons l ls)
  show ?case
  proof (cases "classify l")
    case SphRecord
    with Cons.prems have "i = sphereId s \<or> (SphereType, i) \<in> set (objectsOf c (s + 1) ls)"
      by auto
    then show ?thesis
    proof
      assume "i = sphereId s"
      then show ?thesis using SphRecord by (auto simp: countKind_Cons)
    next
      assume "(SphereType, i) \<in> set (objectsOf c (s + 1) ls)"
      from Cons.IH[OF this] obtain j where "s + 1 \<le> j" "j < s + 1 + countKind SphRecord ls"
        "i = sphereId j" by blast
      then show ?thesis using SphRecord by (intro exI[of _ j]) (simp add: countKind_Cons)
    qed
  next
    case RccRecord
    with Cons.prems have "(SphereType, i) \<in> set (objectsOf (c + 1) s ls)" by auto
    from Cons.IH[OF this] show ?thesis using RccRecord by (auto simp: countKind_Cons)
  next
    case IntegerList
    with Cons.prems have "(SphereType, i) \<in> set (objectsOf c s ls)" by auto
    from Cons.IH[OF this] show ?thesis using IntegerList by (auto simp: countKind_Cons)
  next
    case Ignored
    with Cons.prems have "(SphereType, i) \<in> set (objectsOf c s ls)" by auto
    from Cons.IH[OF this] show ?thesis using Ignored by (auto simp: countKind_Cons)
  qed
qed

lemma distinct_objectsOf: "distinct (objectsOf c s ls)"
proof (induction ls arbitrary: c s)
  case Nil
  show ?case by simp
next
  case (Cons l ls)
  show ?case
  proof (cases "classify l")
    case RccRecord
    have "(CylinderType, cylinderId c) \<notin> set (objectsOf (c + 1) s ls)"
      using objectsOf_cylinder_mem[of "cylinderId c" "c + 1" s ls] by (auto simp: cylinderId_inj)
    with RccRecord Cons.IH show ?thesis by simp
  next
    case SphRecord
    have "(SphereType, sphereId s) \<notin> set (objectsOf c (s + 1) ls)"
      using objectsOf_sphere_mem[of "sphereId s" c "s + 1" ls] by (auto simp: sphereId_inj)
    with SphRecord Cons.IH show ?thesis by simp
  next
    case IntegerList
    with Cons.IH show ?thesis by simp
  next
    case Ignored
    with Cons.IH show ?thesis by simp
  qed
qed

lemma countKind_Nil: "countKind k [] = 0"
  by (simp add: countKind_def)

lemma length_objectsOf:
  "length (objectsOf c s ls) = countKind RccRecord ls + countKind SphRecord ls"
  by (induction ls arbitrary: c s) (auto simp: countKind_Cons countKind_Nil split: lineKind.splits)

lemma rccCylinder_material: "cylinder.materialType (rccCylinder parts) = Concrete"
  by (simp add: rccCylinder_def Let_def)

lemma sphSphere_material: "sphere.materialType (sphSphere parts) = Concrete"
  by (simp add: sphSphere_def Let_def)

lemma map_of_zip_map:
  assumes "x \<in> set xs" "length xs = length ys"
  shows "\<exists>y \<in> set ys. map_of (zip xs (map f ys)) x = Some (f y)"
proof -
  from assms have "\<exists>v. map_of (zip xs (map f ys)) x = Some v"
    using map_of_zip_is_Some[of xs "map f ys" x] by simp
  then obtain v where v: "map_of (zip xs (map f ys)) x = Some v" by blast
  then have "(x, v) \<in> set (zip xs (map f ys))" by (rule map_of_SomeD)
  then have "v \<in> set (map f ys)" by (rule set_zip_rightD)
  with v show ?thesis by auto
qed

lemma loop_objects_concrete:
  assumes "loopInvariant ls st" "obj \<in> set (objectOrder st)"
  shows "objectMaterial st obj = Some Concrete"
proof (cases obj)
  case (Pair kind ident)
  show ?thesis
  proof (cases kind)
    case CylinderType
    with assms Pair have "(CylinderType, ident) \<in> set (objectsOf 1 1 ls)"
      by (simp add: loopInvariant_def)
    from objectsOf_cylinder_mem[OF this]
    have mem: "ident \<in> set (map cylinderId [1..<1 + countKind RccRecord ls])" by auto
    have len: "length (map cylinderId [1..<1 + countKind RccRecord ls])
                 = length (tokensOf RccRecord ls)"
      by (simp add: length_tokensOf)
    have eq: "newCylinderParams st =
        zip (map cylinderId [1..<1 + countKind RccRecord ls])
          (map rccCylinder (tokensOf RccRecord ls))"
      using assms(1) unfolding loopInvariant_def by blast
    from map_of_zip_map[OF mem len, of rccCylinder]
    obtain y where "map_of (newCylinderParams st) ident = Some (rccCylinder y)"
      unfolding eq by blast
    then show ?thesis
      by (simp add: Pair CylinderType objectMaterial_def rccCylinder_material)
  next
    case SphereType
    with assms Pair have "(SphereType, ident) \<in> set (objectsOf 1 1 ls)"
      by (simp add: loopInvariant_def)
    from objectsOf_sphere_mem[OF this]
    have mem: "ident \<in> set (map sphereId [1..<1 + countKind SphRecord ls])" by auto
    have len: "length (map sphereId [1..<1 + countKind SphRecord ls])
                 = length (tokensOf SphRecord ls)"
      by (simp add: length_tokensOf)
    have eq: "newSphereParams st =
        zip (map sphereId [1..<1 + countKind SphRecord ls])
          (map sphSphere (tokensOf SphRecord ls))"
      using assms(1) unfolding loopInvariant_def by blast
    from map_of_zip_map[OF mem len, of sphSphere]
    obtain y where "map_of (newSphereParams st) ident = Some (sphSphere y)"
      unfolding eq by blast
    then show ?thesis
      by (simp add: Pair SphereType objectMaterial_def sphSphere_material)
  qed
qed

text \<open>What the material step leaves alone.\<close>

lemma setCylinderMaterial_keys: "map fst (setCylinderMaterial k m al) = map fst al"
  by (induction al) auto

lemma setSphereMaterial_keys: "map fst (setSphereMaterial k m al) = map fst al"
  by (induction al) auto

lemma setCylinderMaterial_geometry:
  "map (\<lambda>(k, c). c\<lparr>cylinder.materialType := Concrete\<rparr>) (setCylinderMaterial k m al)
     = map (\<lambda>(k, c). c\<lparr>cylinder.materialType := Concrete\<rparr>) al"
  by (induction al) auto

lemma setSphereMaterial_geometry:
  "map (\<lambda>(k, c). c\<lparr>sphere.materialType := Concrete\<rparr>) (setSphereMaterial k m al)
     = map (\<lambda>(k, c). c\<lparr>sphere.materialType := Concrete\<rparr>) al"
  by (induction al) auto

lemma sameGeometry_assignMaterial: "sameGeometry (assignMaterial st e) st"
  by (cases e; cases "fst (snd e)")
     (auto simp: sameGeometry_def assignMaterial_def setCylinderMaterial_keys
        setSphereMaterial_keys setCylinderMaterial_geometry setSphereMaterial_geometry)

lemma sameGeometry_foldl: "sameGeometry (foldl assignMaterial st es) st"
proof (induction es arbitrary: st)
  case Nil
  show ?case by (simp add: sameGeometry_def)
next
  case (Cons e es)
  from Cons.IH[of "assignMaterial st e"] sameGeometry_assignMaterial[of st e]
  show ?case by (simp add: sameGeometry_def)
qed

lemma sameGeometry_assignMaterials: "sameGeometry (assignMaterials st) st"
  using sameGeometry_foldl by (simp add: assignMaterials_def sameGeometry_def)

lemma rccCylinder_erase: "(rccCylinder p)\<lparr>cylinder.materialType := Concrete\<rparr> = rccCylinder p"
  by (simp add: rccCylinder_def Let_def)

lemma sphSphere_erase: "(sphSphere p)\<lparr>sphere.materialType := Concrete\<rparr> = sphSphere p"
  by (simp add: sphSphere_def Let_def)

lemma map_erase_zip:
  assumes "length xs = length ys" "\<And>y. g (f y) = f y"
  shows "map (\<lambda>(k, c). g c) (zip xs (map f ys)) = map f ys"
  using assms(1)
proof (induction xs ys rule: list_induct2)
  case Nil
  show ?case by simp
next
  case (Cons x xs y ys)
  then show ?case by (simp add: assms(2))
qed

lemma parse_scene:
  fixes content :: string
  defines "ls \<equiv> splitNewline content"
  defines "st \<equiv> parseText content"
  shows "map fst (newCylinderParams st) = map cylinderId [1..<1 + countKind RccRecord ls]"
    and "map fst (newSphereParams st) = map sphereId [1..<1 + countKind SphRecord ls]"
    and "map (\<lambda>(k, c). c\<lparr>cylinder.materialType := Concrete\<rparr>) (newCylinderParams st)
           = map rccCylinder (tokensOf RccRecord ls)"
    and "map (\<lambda>(k, c). c\<lparr>sphere.materialType := Concrete\<rparr>) (newSphereParams st)
           = map sphSphere (tokensOf SphRecord ls)"
    and "objectOrder st = objectsOf 1 1 ls"
proof -
  let ?st0 = "foldl importLine initialImportState ls"
  have inv: "loopInvariant ls ?st0" by (rule loopInvariant_lines)
  have same: "sameGeometry st ?st0"
    unfolding st_def parseText_def ls_def by (rule sameGeometry_assignMaterials)
  have c: "newCylinderParams ?st0 =
        zip (map cylinderId [1..<1 + countKind RccRecord ls])
          (map rccCylinder (tokensOf RccRecord ls))"
    and s: "newSphereParams ?st0 =
        zip (map sphereId [1..<1 + countKind SphRecord ls])
          (map sphSphere (tokensOf SphRecord ls))"
    and o: "objectOrder ?st0 = objectsOf 1 1 ls"
    using inv unfolding loopInvariant_def by blast+
  have lc: "length (map cylinderId [1..<1 + countKind RccRecord ls])
              = length (tokensOf RccRecord ls)"
    and lsp: "length (map sphereId [1..<1 + countKind SphRecord ls])
              = length (tokensOf SphRecord ls)"
    by (simp_all add: length_tokensOf)
  show "map fst (newCylinderParams st) = map cylinderId [1..<1 + countKind RccRecord ls]"
    using same lc unfolding sameGeometry_def c by (simp del: upt_Suc)
  show "map fst (newSphereParams st) = map sphereId [1..<1 + countKind SphRecord ls]"
    using same lsp unfolding sameGeometry_def s by (simp del: upt_Suc)
  have "map (\<lambda>(k, c). c\<lparr>cylinder.materialType := Concrete\<rparr>) (newCylinderParams ?st0)
          = map rccCylinder (tokensOf RccRecord ls)"
    unfolding c using lc by (intro map_erase_zip) (simp_all add: rccCylinder_erase del: upt_Suc)
  then show "map (\<lambda>(k, c). c\<lparr>cylinder.materialType := Concrete\<rparr>) (newCylinderParams st)
           = map rccCylinder (tokensOf RccRecord ls)"
    using same unfolding sameGeometry_def by simp
  have "map (\<lambda>(k, c). c\<lparr>sphere.materialType := Concrete\<rparr>) (newSphereParams ?st0)
          = map sphSphere (tokensOf SphRecord ls)"
    unfolding s using lsp by (intro map_erase_zip) (simp_all add: sphSphere_erase del: upt_Suc)
  then show "map (\<lambda>(k, c). c\<lparr>sphere.materialType := Concrete\<rparr>) (newSphereParams st)
           = map sphSphere (tokensOf SphRecord ls)"
    using same unfolding sameGeometry_def by simp
  show "objectOrder st = objectsOf 1 1 ls"
    using same o unfolding sameGeometry_def by simp
qed

lemma splitWhiteSpace_nonempty: "splitWhiteSpace s \<noteq> []"
proof (induction s)
  case Nil
  show ?case by simp
next
  case (Cons c cs)
  have "splitWhiteSpace (c # cs) = splitWhiteSpace cs
          \<or> (\<exists>x xs. splitWhiteSpace (c # cs) = x # xs)"
    by (simp split: list.splits)
  with Cons show ?case by auto
qed

lemma tokensOf_nonempty: "ts \<in> set (tokensOf k ls) \<Longrightarrow> ts \<noteq> []"
  by (auto simp: tokensOf_def splitWhiteSpace_nonempty)

lemma map_objectMaterial_concrete:
  assumes "\<forall>obj \<in> set os. objectMaterial st obj = Some Concrete"
  shows "map (objectMaterial st) os = replicate (length os) (Some Concrete)"
  using assms by (induction os) auto

lemma parse_materials:
  fixes content :: string
  defines "ls \<equiv> splitNewline content"
  defines "st \<equiv> parseText content"
  defines "n \<equiv> countKind RccRecord ls + countKind SphRecord ls"
  shows "map (objectMaterial st) (objectsOf 1 1 ls) =
     (case tokensOf IntegerList ls of
        [] \<Rightarrow> replicate n (Some Concrete)
      | t # ts \<Rightarrow>
          if length (last (t # ts)) = n
          then map (\<lambda>tok. Some (materialMapReverse (digitsValue tok))) (last (t # ts))
          else replicate n (Some Concrete))"
proof -
  define st0 where "st0 = foldl importLine initialImportState ls"
  define os where "os = objectsOf 1 1 ls"
  have inv: "loopInvariant ls st0" unfolding st0_def by (rule loopInvariant_lines)
  have o: "objectOrder st0 = os"
    using inv unfolding os_def by (simp add: loopInvariant_def)
  have m: "materialList st0 =
       (case tokensOf IntegerList ls of [] \<Rightarrow> [] | ts \<Rightarrow> map digitsValue (last ts))"
    using inv by (simp add: loopInvariant_def)
  have len: "length os = n"
    by (simp add: n_def os_def length_objectsOf)
  have conc: "\<forall>obj \<in> set os. objectMaterial st0 obj = Some Concrete"
    using loop_objects_concrete[OF inv] o by simp
  have st: "st = assignMaterials st0"
    by (simp add: st_def parseText_def ls_def st0_def)
  have all_concrete: "map (objectMaterial st0) os = replicate n (Some Concrete)"
    using map_objectMaterial_concrete[OF conc] len by simp
  show ?thesis
  proof (cases "tokensOf IntegerList ls")
    case Nil
    then have "st = st0" by (simp add: st assignMaterials_def m)
    with all_concrete show ?thesis by (simp only: Nil list.case os_def)
  next
    case (Cons t ts)
    define codes where "codes = last (t # ts)"
    have "codes \<in> set (tokensOf IntegerList ls)"
      unfolding Cons codes_def by (rule last_in_set) simp
    then have ne: "codes \<noteq> []" by (rule tokensOf_nonempty)
    have ml: "materialList st0 = map digitsValue codes"
      unfolding m Cons codes_def by (simp only: list.case)
    show ?thesis
    proof (cases "length codes = n")
      case True
      have app: "st = foldl assignMaterial st0 (zip (map digitsValue codes) os)"
        using ne True by (simp add: st assignMaterials_def ml o len)
      have "map (objectMaterial st) os
              = map (\<lambda>m. Some (materialMapReverse m)) (map digitsValue codes)"
        unfolding app
      proof (rule objectMaterial_foldl)
        show "distinct os" unfolding os_def by (rule distinct_objectsOf)
        show "length (map digitsValue codes) = length os" using True len by simp
        show "\<forall>obj\<in>set os. objectMaterial st0 obj \<noteq> None" using conc by simp
      qed
      then have "map (objectMaterial st) os
              = map (\<lambda>tok. Some (materialMapReverse (digitsValue tok))) codes"
        by (simp add: comp_def)
      with True show ?thesis
        unfolding Cons list.case codes_def[symmetric] os_def[symmetric] by simp
    next
      case False
      then have "st = st0" by (simp add: st assignMaterials_def ml o len)
      with all_concrete False show ?thesis
        unfolding Cons list.case codes_def[symmetric] os_def[symmetric] by simp
    qed
  qed
qed

section \<open>Import of a whole file\<close>



lemma sphereId_1: "sphereId 1 = ''sphere1''"
  by (simp add: sphereId_def showNat.simps digitChar_def)


lemma sphereId_Suc0: "sphereId (Suc 0) = ''sphere1''"
  using sphereId_1 by simp


lemmas classify_eval = classify_def trim_def startsWith_def matchesIntegerList_def
  isWhiteSpace_def isDigit_def Let_def


lemma classify_sphLine: "classify ''sph 1 0 0 0 1'' = SphRecord"
  by (simp add: classify_eval)

lemma classify_2: "classify ''2'' = IntegerList"
  by (simp add: classify_eval)

lemma classify_3: "classify ''3'' = IntegerList"
  by (simp add: classify_eval)

lemma classify_34: "classify ''3 4'' = IntegerList"
  by (simp add: classify_eval)

lemma classify_rccLine: "classify ''rcc 1 0 -1 0 0 2 0 1'' = RccRecord"
  by (simp add: classify_eval)

lemma tokens_rccLine:
  "splitWhiteSpace (trim ''rcc 1 0 -1 0 0 2 0 1'')
     = [''rcc'', ''1'', ''0'', ''-1'', ''0'', ''0'', ''2'', ''0'', ''1'']"
  by (simp add: trim_def isWhiteSpace_def)


lemma materialMapReverse_table:
  "materialMapReverse 1 = Concrete" "materialMapReverse 2 = Steel"
  "materialMapReverse 3 = Wood" "materialMapReverse 4 = Standard"
  "k \<notin> {1, 2, 3, 4} \<Longrightarrow> materialMapReverse k = Concrete"
  by (simp_all add: materialMapReverse_def)

text \<open>
  C9, amended. The last line of integers of the file is the list of material codes: when
  the number of its codes is the number of parsed objects, the codes go to the objects
  in the order in which the objects were met, 1 concrete, 2 steel, 3 wood, 4 standard,
  any other code concrete; when the numbers differ, or the file has no such line, every
  object keeps concrete.
\<close>

theorem material_list_rule:
  "let ls = splitNewline content;
       st = parseText content;
       n = countKind RccRecord ls + countKind SphRecord ls in
   objectOrder st = objectsOf 1 1 ls \<and> length (objectOrder st) = n
 \<and> map (objectMaterial st) (objectOrder st) =
     (case tokensOf IntegerList ls of
        [] \<Rightarrow> replicate n (Some Concrete)
      | t # ts \<Rightarrow>
          if length (last (t # ts)) = n
          then map (\<lambda>tok. Some (materialMapReverse (digitsValue tok))) (last (t # ts))
          else replicate n (Some Concrete))
 \<and> materialMapReverse 1 = Concrete \<and> materialMapReverse 2 = Steel
 \<and> materialMapReverse 3 = Wood \<and> materialMapReverse 4 = Standard
 \<and> (\<forall>k. k \<notin> {1, 2, 3, 4} \<longrightarrow> materialMapReverse k = Concrete)"
  unfolding Let_def
  using parse_scene(5) [of content] parse_materials [of content]
    length_objectsOf [of 1 1 "splitNewline content"] materialMapReverse_table
  by (simp only: simp_thms) blast

lemma lines_twoCodeLines: "splitNewline twoCodeLines = [''sph 1 0 0 0 1'', ''2'', ''3'']"
  by (simp add: twoCodeLines_def)

lemma tokens_2: "splitWhiteSpace (trim ''2'') = [''2'']"
  by (simp add: trim_def isWhiteSpace_def)

lemma tokens_3: "splitWhiteSpace (trim ''3'') = [''3'']"
  by (simp add: trim_def isWhiteSpace_def)

lemma digitsValue_2: "digitsValue ''2'' = 2"
  by (simp add: digitsValue_def digitValue_def)

lemma digitsValue_3: "digitsValue ''3'' = 3"
  by (simp add: digitsValue_def digitValue_def)

theorem material_list_rule_witness:
  "objectOrder (parseText twoCodeLines) = [(SphereType, ''sphere1'')]
   \<and> map (objectMaterial (parseText twoCodeLines)) (objectOrder (parseText twoCodeLines))
       = [Some Wood]"
  using material_list_rule [of twoCodeLines]
  by (auto simp add: Let_def lines_twoCodeLines countKind_def tokensOf_def classify_sphLine
      classify_2 classify_3 tokens_3 digitsValue_3 materialMapReverse_def sphereId_Suc0)

text \<open>
  C9, as stated, fails for a line of integers that is not the last one: in the file with
  the lines \<^verbatim>\<open>sph 1 0 0 0 1\<close>, \<^verbatim>\<open>2\<close>, \<^verbatim>\<open>3\<close> the line \<^verbatim>\<open>2\<close> has as many codes as there are
  objects and would make the sphere steel, but the sphere is wood.
\<close>

theorem earlier_integer_line_counterexample:
  "''2'' \<in> set (splitNewline twoCodeLines)
   \<and> matchesIntegerList (trim ''2'')
   \<and> length (splitWhiteSpace (trim ''2'')) = length (objectOrder (parseText twoCodeLines))
   \<and> map (\<lambda>tok. Some (materialMapReverse (digitsValue tok))) (splitWhiteSpace (trim ''2''))
       = [Some Steel]
   \<and> map (objectMaterial (parseText twoCodeLines)) (objectOrder (parseText twoCodeLines))
       = [Some Wood]"
proof -
  have o: "objectOrder (parseText twoCodeLines) = [(SphereType, ''sphere1'')]"
    using parse_scene(5) [of twoCodeLines]
    by (simp add: lines_twoCodeLines classify_sphLine classify_2 classify_3 sphereId_Suc0)
  have m: "map (objectMaterial (parseText twoCodeLines)) (objectsOf 1 1 (splitNewline twoCodeLines))
             = [Some Wood]"
    unfolding parse_materials [of twoCodeLines]
    by (simp add: lines_twoCodeLines countKind_def tokensOf_def classify_sphLine
      classify_2 classify_3 tokens_3 digitsValue_3 materialMapReverse_def)
  have m': "map (objectMaterial (parseText twoCodeLines)) (objectOrder (parseText twoCodeLines))
             = [Some Wood]"
    using m parse_scene(5) [of twoCodeLines] by simp
  have i: "matchesIntegerList (trim ''2'')"
    by (simp add: trim_def matchesIntegerList_def isWhiteSpace_def isDigit_def)
  show ?thesis
    using o m' i
    by (simp add: lines_twoCodeLines tokens_2 digitsValue_2 materialMapReverse_def)
qed

lemma tokensOf_append: "tokensOf k (a @ b) = tokensOf k a @ tokensOf k b"
  by (simp add: tokensOf_def)

lemma tokensOf_none: "countKind k ls = 0 \<Longrightarrow> tokensOf k ls = []"
  by (simp add: tokensOf_def countKind_def)

lemma tokensOf_Cons:
  "tokensOf k (l # ls) = (if classify l = k then [splitWhiteSpace (trim l)] else []) @ tokensOf k ls"
  by (simp add: tokensOf_def)

lemma tokensOf_single: "classify l = k \<Longrightarrow> tokensOf k [l] = [splitWhiteSpace (trim l)]"
  by (simp add: tokensOf_def)

lemma parse_materialList:
  "materialList (parseText content) =
     (case tokensOf IntegerList (splitNewline content) of
        [] \<Rightarrow> [] | ts \<Rightarrow> map digitsValue (last ts))"
proof -
  let ?st0 = "foldl importLine initialImportState (splitNewline content)"
  have "materialList (parseText content) = materialList ?st0"
    using sameGeometry_assignMaterials [of ?st0] by (simp add: sameGeometry_def parseText_def)
  also have "\<dots> = (case tokensOf IntegerList (splitNewline content) of
        [] \<Rightarrow> [] | ts \<Rightarrow> map digitsValue (last ts))"
    using loopInvariant_lines [of "splitNewline content"] by (simp add: loopInvariant_def)
  finally show ?thesis .
qed

text \<open>
  C10. When a line of integers is followed by another one, and that one by no further,
  the codes kept are those of the later line, whatever the earlier line held: the
  materials are assigned from the later line when it has one code for each object, and
  every object keeps concrete when it has not.
\<close>

theorem last_integer_line_wins:
  assumes "splitNewline content = pre @ [l1] @ mid @ [l2] @ post"
    and "classify l1 = IntegerList" and "classify l2 = IntegerList"
    and "countKind IntegerList post = 0"
  shows "let st = parseText content;
             n = countKind RccRecord (splitNewline content)
                 + countKind SphRecord (splitNewline content);
             codes = splitWhiteSpace (trim l2) in
         materialList st = map digitsValue codes
       \<and> map (objectMaterial st) (objectOrder st) =
           (if length codes = n
            then map (\<lambda>tok. Some (materialMapReverse (digitsValue tok))) codes
            else replicate n (Some Concrete))"
proof -
  define codes where "codes = splitWhiteSpace (trim l2)"
  have eq: "tokensOf IntegerList (splitNewline content)
          = (tokensOf IntegerList pre @ [splitWhiteSpace (trim l1)] @ tokensOf IntegerList mid)
            @ [codes]"
    unfolding assms(1) codes_def
    by (simp add: tokensOf_append tokensOf_Cons assms(2,3) tokensOf_none [OF assms(4)])
  then have lst: "last (tokensOf IntegerList (splitNewline content)) = codes"
    by (simp only: last_snoc)
  from eq have "tokensOf IntegerList (splitNewline content) \<noteq> []" by simp
  then obtain t ts where ts: "tokensOf IntegerList (splitNewline content) = t # ts"
    by (cases "tokensOf IntegerList (splitNewline content)") auto
  have l: "last (t # ts) = codes" using lst unfolding ts .
  have a: "materialList (parseText content) = map digitsValue codes"
    unfolding parse_materialList ts using l by simp
  have b: "map (objectMaterial (parseText content)) (objectOrder (parseText content)) =
           (if length codes = countKind RccRecord (splitNewline content)
                 + countKind SphRecord (splitNewline content)
            then map (\<lambda>tok. Some (materialMapReverse (digitsValue tok))) codes
            else replicate (countKind RccRecord (splitNewline content)
                 + countKind SphRecord (splitNewline content)) (Some Concrete))"
    unfolding parse_scene(5) parse_materials [of content] ts list.case l by (rule refl)
  from a b show ?thesis
    unfolding Let_def codes_def by (rule conjI)
qed

lemma lines_mismatchedCodeLines:
  "splitNewline mismatchedCodeLines = [''sph 1 0 0 0 1'', ''2'', ''3 4'']"
  by (simp add: mismatchedCodeLines_def)

lemma tokens_34: "splitWhiteSpace (trim ''3 4'') = [''3'', ''4'']"
  by (simp add: trim_def isWhiteSpace_def)

lemma digitsValue_4: "digitsValue ''4'' = 4"
  by (simp add: digitsValue_def digitValue_def)

theorem last_integer_line_wins_witness:
  "splitNewline mismatchedCodeLines = [''sph 1 0 0 0 1''] @ [''2''] @ [] @ [''3 4''] @ []
   \<and> classify ''2'' = IntegerList \<and> classify ''3 4'' = IntegerList
   \<and> countKind IntegerList [] = 0
   \<and> materialList (parseText mismatchedCodeLines) = [3, 4]
   \<and> map (objectMaterial (parseText mismatchedCodeLines))
        (objectOrder (parseText mismatchedCodeLines)) = [Some Concrete]"
proof -
  have s: "splitNewline mismatchedCodeLines = [''sph 1 0 0 0 1''] @ [''2''] @ [] @ [''3 4''] @ []"
    by (simp add: lines_mismatchedCodeLines)
  have z: "countKind IntegerList [] = 0" by (simp add: countKind_def)
  from last_integer_line_wins [OF s classify_2 classify_34 z]
  show ?thesis
    using s z
    by (simp add: Let_def lines_mismatchedCodeLines countKind_def classify_sphLine classify_2
        classify_34 tokens_34 digitsValue_3 digitsValue_4)
qed

text \<open>
  C2. A line that starts with \<^verbatim>\<open>rcc\<close>, has at least 9 pieces and whose pieces 2 to 8 read
  as the numbers \<open>bx by bz dx dy dz r\<close> adds the cylinder \<^verbatim>\<open>cylinderN\<close> with height the
  length of \<open>(dx, dy, dz)\<close>, centre \<open>(bx, by, bz) + (dx, dy, dz) / 2\<close>, both radii \<open>r\<close>,
  \<open>rotX = atan2 (sqrt (dx\<^sup>2 + dz\<^sup>2), dy) / \<pi>\<close>, \<open>rotY = atan2 (dx, dz) / \<pi>\<close> and
  \<open>rotZ = 0\<close>.
\<close>

theorem rcc_line_reconstruction:
  assumes "startsWith ''rcc'' (trim l)"
    and "parts = splitWhiteSpace (trim l)" and "9 \<le> length parts"
    and "parseFloat (parts ! 2) = Some bx" and "parseFloat (parts ! 3) = Some py"
    and "parseFloat (parts ! 4) = Some bz"
    and "parseFloat (parts ! 5) = Some dx" and "parseFloat (parts ! 6) = Some dy"
    and "parseFloat (parts ! 7) = Some dz"
    and "parseFloat (parts ! 8) = Some r"
  shows "importLine st l =
     st\<lparr>newCylinderParams :=
          assign (''cylinder'' @ showNat (cylIndex st))
            \<lparr>radiusTop = Some r, radiusBottom = Some r,
             height = Some (sqrt (dx\<^sup>2 + dy\<^sup>2 + dz\<^sup>2)),
             rotation = (Some (atan2 (sqrt (dx\<^sup>2 + dz\<^sup>2)) dy / pi), Some (atan2 dx dz / pi), Some 0),
             position = (Some (bx + dx / 2), Some (py + dy / 2), Some (bz + dz / 2)),
             materialType = Concrete\<rparr>
            (newCylinderParams st),
        objectOrder := objectOrder st @ [(CylinderType, ''cylinder'' @ showNat (cylIndex st))],
        cylIndex := cylIndex st + 1\<rparr>"
proof -
  have "rccCylinder parts =
      \<lparr>radiusTop = Some r, radiusBottom = Some r,
       height = Some (sqrt (dx\<^sup>2 + dy\<^sup>2 + dz\<^sup>2)),
       rotation = (Some (atan2 (sqrt (dx\<^sup>2 + dz\<^sup>2)) dy / pi), Some (atan2 dx dz / pi), Some 0),
       position = (Some (bx + dx / 2), Some (py + dy / 2), Some (bz + dz / 2)),
       materialType = Concrete\<rparr>"
    using assms(4-10) by (simp add: rccCylinder_def Let_def power2_eq_square)
  then show ?thesis
    using assms(1-3) by (simp add: importLine_def Let_def)
qed

lemmas parseFloat_eval = parseFloat_def startsWith_def isWhiteSpace_def isDigit_def Let_def
  digitsValue_def digitValue_def exponentPart_def

lemma parseFloat_tokens:
  "parseFloat ''0'' = Some 0" "parseFloat ''1'' = Some 1" "parseFloat ''2'' = Some 2"
  "parseFloat ''-1'' = Some (- 1)"
  by (simp_all add: parseFloat_eval)

lemma atan2_zero: "atan2 0 0 = 0" "atan2 0 2 = 0"
  by (simp_all add: atan2_def)

theorem rcc_line_reconstruction_witness:
  "importLine initialImportState ''rcc 1 0 -1 0 0 2 0 1'' =
     initialImportState
       \<lparr>newCylinderParams :=
          [(''cylinder1'',
            \<lparr>radiusTop = Some 1, radiusBottom = Some 1, height = Some 2,
             rotation = (Some 0, Some 0, Some 0), position = (Some 0, Some 0, Some 0),
             materialType = Concrete\<rparr>)],
        objectOrder := [(CylinderType, ''cylinder1'')],
        cylIndex := 2\<rparr>"
proof -
  let ?parts = "[''rcc'', ''1'', ''0'', ''-1'', ''0'', ''0'', ''2'', ''0'', ''1'']"
  have p: "?parts = splitWhiteSpace (trim ''rcc 1 0 -1 0 0 2 0 1'')"
    by (simp add: tokens_rccLine)
  have s: "startsWith ''rcc'' (trim ''rcc 1 0 -1 0 0 2 0 1'')"
    by (simp add: startsWith_def trim_def isWhiteSpace_def)
  have n: "9 \<le> length ?parts" by simp
  from rcc_line_reconstruction [OF s p n, of 0 "- 1" 0 0 2 0 1 initialImportState]
  show ?thesis
    by (simp add: parseFloat_tokens atan2_zero initialImportState_def showNat.simps digitChar_def)
qed

section \<open>Numbers with six decimals\<close>

lemma length_lastDigits: "length (lastDigits k r) = k"
  by (induction k arbitrary: r) auto

lemma lastDigits_zero: "lastDigits k 0 = replicate k CHR ''0''"
  by (induction k) (auto simp: digitChar_def replicate_append_same)

lemma showNat_small: "n < 10 \<Longrightarrow> showNat n = [digitChar n]"
  by (subst showNat.simps) simp

lemma showNat_large: "10 \<le> n \<Longrightarrow> showNat n = showNat (n div 10) @ [digitChar (n mod 10)]"
  by (subst showNat.simps) simp

lemma showNat_0: "showNat 0 = ''0''"
  by (simp add: showNat_small digitChar_def)

lemma length_showNat_pos: "0 < length (showNat n)"
  using showNat_nonempty [of n] by simp

lemma zero_padded_split:
  "replicate (Suc k - length (showNat n)) CHR ''0'' @ showNat n
     = showNat (n div 10 ^ k) @ lastDigits k (n mod 10 ^ k)"
proof (induction k arbitrary: n)
  case 0
  have "Suc 0 - length (showNat n) = 0" using showNat_nonempty [of n] by (cases "showNat n") simp_all
  then show ?case by simp
next
  case (Suc k)
  show ?case
  proof (cases "n < 10")
    case True
    have "(1::nat) \<le> 10 ^ k" by simp
    then have "10 * 1 \<le> 10 * (10::nat) ^ k" by (rule mult_le_mono2)
    with True have "n < 10 * 10 ^ k" by linarith
    then have small: "n div (10 * 10 ^ k) = 0" "n mod (10 * 10 ^ k) = n" by simp_all
    have "replicate (Suc (Suc k) - length (showNat n)) CHR ''0'' @ showNat n
            = replicate (Suc k) CHR ''0'' @ [digitChar n]"
      using True by (simp add: showNat_small)
    also have "\<dots> = showNat 0 @ lastDigits k 0 @ [digitChar n]"
      by (simp add: showNat_0 lastDigits_zero)
    finally show ?thesis
      using True by (simp add: small)
  next
    case False
    then have big: "10 \<le> n" by simp
    have len: "length (showNat n) = Suc (length (showNat (n div 10)))"
      by (simp add: showNat_large [OF big])
    have "replicate (Suc (Suc k) - length (showNat n)) CHR ''0'' @ showNat n
            = (replicate (Suc k - length (showNat (n div 10))) CHR ''0'' @ showNat (n div 10))
              @ [digitChar (n mod 10)]"
      by (simp add: len showNat_large [OF big])
    also have "\<dots> = (showNat (n div 10 div 10 ^ k) @ lastDigits k (n div 10 mod 10 ^ k))
              @ [digitChar (n mod 10)]"
      by (simp only: Suc.IH)
    finally have step: "replicate (Suc (Suc k) - length (showNat n)) CHR ''0'' @ showNat n
        = showNat (n div 10 div 10 ^ k) @ lastDigits k (n div 10 mod 10 ^ k)
          @ [digitChar (n mod 10)]"
      by simp
    have a: "n div 10 div 10 ^ k = n div (10 * 10 ^ k)"
      by (simp add: div_mult2_eq)
    have b: "n mod (10 * 10 ^ k) div 10 = n div 10 mod 10 ^ k"
      by (simp add: mod_mult2_eq)
    have c: "n mod (10 * 10 ^ k) mod 10 = n mod 10"
      by (simp add: mod_mult2_eq)
    show ?thesis
      unfolding step by (simp add: a b c)
  qed
qed

lemma toFixed6_fixed6:
  assumes "\<bar>x\<bar> < 10 ^ 21"
  shows "toFixed6 x = Some (fixed6 x)"
proof -
  define n where "n = nat \<lfloor>\<bar>x\<bar> * 10 ^ 6 + 1 / 2\<rfloor>"
  define m' where "m' = replicate (7 - length (showNat n)) CHR ''0'' @ showNat n"
  have seven: "(7::nat) = Suc 6" by simp
  have m: "m' = showNat (n div 10 ^ 6) @ lastDigits 6 (n mod 10 ^ 6)"
    unfolding m'_def seven by (rule zero_padded_split)
  have l: "length m' - 6 = length (showNat (n div 10 ^ 6))"
    unfolding m by (simp only: length_append length_lastDigits add_diff_cancel_right')
  have t: "take (length m' - 6) m' = showNat (n div 10 ^ 6)"
    unfolding l unfolding m by (simp only: append_eq_conv_conj take_all take_append
        diff_self_eq_0 take_0 append_Nil2 order_refl)
  have d: "drop (length m' - 6) m' = lastDigits 6 (n mod 10 ^ 6)"
    unfolding l unfolding m by (simp only: drop_append drop_all diff_self_eq_0 drop_0
        append_Nil order_refl)
  have c: "\<not> 10 ^ 21 \<le> \<bar>x\<bar>" using assms by linarith
  have "toFixed6 x = Some ((if x < 0 then ''-'' else []) @ take (length m' - 6) m' @ ''.''
           @ drop (length m' - 6) m')"
    unfolding toFixed6_def Let_def m'_def n_def by (simp only: c if_False)
  then show ?thesis
    unfolding t d fixed6_def scaled6_def n_def .
qed

lemma isDigit_digitChar: "d < 10 \<Longrightarrow> isDigit (digitChar d)"
  by (rule digitChar_props)

lemma lastDigits_digits: "list_all isDigit (lastDigits k r)"
  by (induction k arbitrary: r) (auto simp: isDigit_digitChar)










section \<open>Pieces and lines\<close>










section \<open>The text of the export\<close>

lemma toFixed6_printable: "printable v \<Longrightarrow> toFixed6 v = Some (fixed6 v)"
  by (simp add: printable_def toFixed6_fixed6)

lemma rccLine_text:
  assumes "printableCylinder cyl"
  shows "rccLine index cyl = Some (rccText index cyl @ [CHR 0x0A])"
proof -
  obtain cx cy cz where p: "cylinder.position cyl = (cx, cy, cz)"
    by (cases "cylinder.position cyl") auto
  obtain d0 d1 d2 where d: "direction cyl = (d0, d1, d2)" by (cases "direction cyl") auto
  obtain rx ry rz where r: "timesPi (rotation cyl) = (rx, ry, rz)"
    by (cases "timesPi (rotation cyl)") auto
  have e: "eulerToDirection (rx, ry, rz) = (d0, d1, d2)"
    using d r by (simp add: direction_def)
  have a: "axisStart cyl
             = (cx - height cyl * d0 / 2, cy - height cyl * d1 / 2, cz - height cyl * d2 / 2)"
    by (simp add: axisStart_def p d sub3_def scale3_def)
  have s: "scale3 (height cyl) (direction cyl) = (d0 * height cyl, d1 * height cyl, d2 * height cyl)"
    by (simp add: d scale3_def mult.commute)
  from assms have pr:
    "printable (cx - height cyl * d0 / 2)" "printable (cy - height cyl * d1 / 2)"
    "printable (cz - height cyl * d2 / 2)"
    "printable (d0 * height cyl)" "printable (d1 * height cyl)" "printable (d2 * height cyl)"
    "printable (radiusTop cyl)"
    unfolding printableCylinder_def a s by simp_all
  show ?thesis
    unfolding rccLine_def rccText_def p r a s Let_def
    by (simp add: e toFixed6_printable [OF pr(1)] toFixed6_printable [OF pr(2)]
        toFixed6_printable [OF pr(3)] toFixed6_printable [OF pr(4)] toFixed6_printable [OF pr(5)]
        toFixed6_printable [OF pr(6)] toFixed6_printable [OF pr(7)])
qed

lemma sphLine_text:
  assumes "printableSphere sph"
  shows "sphLine index sph = Some (sphText index sph @ [CHR 0x0A])"
proof -
  obtain cx cy cz where p: "sphere.position sph = (cx, cy, cz)"
    by (cases "sphere.position sph") auto
  from assms have pr: "printable cx" "printable cy" "printable cz" "printable (radius sph)"
    unfolding printableSphere_def p by simp_all
  show ?thesis
    unfolding sphLine_def sphText_def p
    by (simp add: toFixed6_printable [OF pr(1)] toFixed6_printable [OF pr(2)]
        toFixed6_printable [OF pr(3)] toFixed6_printable [OF pr(4)])
qed

lemma joinLines_Cons: "joinLines (l # ls) = l @ CHR 0x0A # joinLines ls"
  by (simp add: joinLines_def)

lemma joinLines_append: "joinLines (a @ b) = joinLines a @ joinLines b"
  by (simp add: joinLines_def)

lemma exportCylinders_text:
  assumes "list_all (\<lambda>(k, c). printableCylinder c) cyls"
  shows "exportCylinders index cyls =
           Some (joinLines (map (\<lambda>(i, (k, c)). rccText i c) (zip [index..<index + length cyls] cyls)))"
  using assms
proof (induction cyls arbitrary: index)
  case Nil
  show ?case by (simp add: joinLines_def)
next
  case (Cons kc cyls)
  obtain k c where kc: "kc = (k, c)" by (cases kc) auto
  from Cons.prems have c: "printableCylinder c"
    and rest: "list_all (\<lambda>(k, c). printableCylinder c) cyls"
    by (simp_all add: kc)
  have u: "[index..<index + length ((k, c) # cyls)] = index # [index + 1..<index + 1 + length cyls]"
    using upt_conv_Cons [of index "index + Suc (length cyls)"] by (simp del: upt_Suc)
  show ?case
    unfolding kc u
    by (simp add: rccLine_text [OF c] Cons.IH [OF rest] joinLines_Cons del: upt_Suc)
qed

lemma exportSpheres_text:
  assumes "list_all (\<lambda>(k, s). printableSphere s) sphs"
  shows "exportSpheres index sphs =
           Some (joinLines (map (\<lambda>(i, (k, s)). sphText i s) (zip [index..<index + length sphs] sphs)))"
  using assms
proof (induction sphs arbitrary: index)
  case Nil
  show ?case by (simp add: joinLines_def)
next
  case (Cons ks sphs)
  obtain k s where ks: "ks = (k, s)" by (cases ks) auto
  from Cons.prems have s: "printableSphere s"
    and rest: "list_all (\<lambda>(k, s). printableSphere s) sphs"
    by (simp_all add: ks)
  have u: "[index..<index + length ((k, s) # sphs)] = index # [index + 1..<index + 1 + length sphs]"
    using upt_conv_Cons [of index "index + Suc (length sphs)"] by (simp del: upt_Suc)
  show ?case
    unfolding ks u
    by (simp add: sphLine_text [OF s] Cons.IH [OF rest] joinLines_Cons del: upt_Suc)
qed

lemma exportZones_text:
  "exportZones index xs = joinLines (map zoneText [index..<index + length xs])"
proof (induction xs arbitrary: index)
  case Nil
  show ?case by (simp add: joinLines_def)
next
  case (Cons x xs)
  have u: "[index..<index + length (x # xs)] = index # [index + 1..<index + 1 + length xs]"
    using upt_conv_Cons [of index "index + Suc (length xs)"] by (simp del: upt_Suc)
  show ?case
    unfolding u by (simp add: Cons.IH joinLines_Cons zoneText_def del: upt_Suc)
qed

lemma materialMap_code: "materialMap m = materialCode m"
  by (cases m) (simp_all add: materialCode_def)

lemma exportCylinderMaterials_text:
  "exportCylinderMaterials cyls =
     concat (map (\<lambda>m. showNat (materialCode m) @ '' '') (map (\<lambda>(k, c). cylinder.materialType c) cyls))"
  by (induction cyls) (auto simp: materialMap_code)

lemma exportSphereMaterials_text:
  "exportSphereMaterials sphs =
     concat (map (\<lambda>m. showNat (materialCode m) @ '' '') (map (\<lambda>(k, s). sphere.materialType s) sphs))"
  by (induction sphs) (auto simp: materialMap_code)

lemma upt_split: "[1..<1 + (n + m)] = [1..<1 + n] @ [1 + n..<1 + n + m]"
  by (metis add.assoc le_add1 upt_add_eq_append)

lemma exportString_text:
  assumes "printableScene cyls sphs"
  shows "exportString cyls sphs = Some (joinLines (exportLines cyls sphs))"
proof -
  from assms have c: "list_all (\<lambda>(k, c). printableCylinder c) cyls"
    and s: "list_all (\<lambda>(k, s). printableSphere s) sphs"
    by (simp_all add: printableScene_def)
  have z: "exportZones 1 cyls @ exportZones (1 + length cyls) sphs
             = joinLines (map zoneText [1..<1 + length cyls + length sphs])"
    using upt_split [of "length cyls" "length sphs"]
    by (simp add: exportZones_text joinLines_append add.assoc del: upt_Suc)
  have m: "exportCylinderMaterials cyls @ exportSphereMaterials sphs = materialText cyls sphs"
    by (simp add: exportCylinderMaterials_text exportSphereMaterials_text materialText_def)
  have "exportString cyls sphs =
      Some (joinLines (map (\<lambda>(i, (k, c)). rccText i c) (zip [1..<1 + length cyls] cyls))
            @ joinLines (map (\<lambda>(i, (k, s)). sphText i s)
                (zip [1 + length cyls..<1 + length cyls + length sphs] sphs))
            @ ''end body'' @ [CHR 0x0A]
            @ (exportZones 1 cyls @ exportZones (1 + length cyls) sphs)
            @ ''end zone'' @ [CHR 0x0A]
            @ (exportCylinderMaterials cyls @ exportSphereMaterials sphs)
            @ [CHR 0x0A] @ ''oesnt worend geom'' @ [CHR 0x0A])"
    unfolding exportString_def
    by (simp add: exportCylinders_text [OF c] exportSpheres_text [OF s] del: upt_Suc)
  also have "\<dots> = Some (joinLines (exportLines cyls sphs))"
    unfolding z m exportLines_def joinLines_append
    by (simp add: joinLines_def del: upt_Suc)
  finally show ?thesis .
qed

section \<open>Reading the exported text\<close>

lemma digit_token_char: "isDigit c \<Longrightarrow> \<not> isWhiteSpace c"
  by (rule isDigit_not_ws)

lemma isToken_showNat: "isToken (showNat n)"
  using showNat_digits [of n] showNat_nonempty [of n]
  by (auto simp: isToken_def list_all_iff dest: isDigit_not_ws)

lemma isToken_lastDigits: "\<forall>c \<in> set (lastDigits k r). \<not> isWhiteSpace c"
  using lastDigits_digits [of k r] by (auto simp: list_all_iff dest: isDigit_not_ws)

lemma isToken_fixed6: "isToken (fixed6 x)"
proof -
  have "\<forall>c \<in> set (showNat (scaled6 x div 10 ^ 6)). \<not> isWhiteSpace c"
    using isToken_showNat by (simp add: isToken_def)
  moreover have "\<not> isWhiteSpace CHR ''-''" "\<not> isWhiteSpace CHR ''.''"
    by (simp_all add: isWhiteSpace_def)
  ultimately show ?thesis
    using isToken_lastDigits [of 6 "scaled6 x mod 10 ^ 6"]
    by (auto simp: isToken_def fixed6_def)
qed

lemma isToken_words: "isToken ''rcc''" "isToken ''sph''"
  by (simp_all add: isToken_def isWhiteSpace_def)



lemma rcc_tokens:
  "list_all isToken [''rcc'', showNat i, fixed6 a, fixed6 b, fixed6 c, fixed6 d, fixed6 e,
     fixed6 f, fixed6 g]"
  by (simp add: isToken_words isToken_showNat isToken_fixed6)

lemma sph_tokens:
  "list_all isToken [''sph'', showNat i, fixed6 a, fixed6 b, fixed6 c, fixed6 d]"
  by (simp add: isToken_words isToken_showNat isToken_fixed6)

























section \<open>Round trip\<close>
















lemma direction_upright: "rotation cyl = (0, 0, 0) \<Longrightarrow> direction cyl = (0, 1, 0)"
  by (simp add: direction_def timesPi_def eulerToDirection_zero)






lemma lastDigits_6_0: "lastDigits 6 0 = ''000000''"
  by (simp add: lastDigits_zero eval_nat_numeral)

lemma showNat_digit_values:
  "showNat 0 = ''0''" "showNat 1 = ''1''" "showNat 2 = ''2''" "showNat 4 = ''4''"
  "showNat (Suc 0) = ''1''" "showNat (Suc (Suc 0)) = ''2''"
  by (simp_all add: showNat.simps digitChar_def)

lemma scaled6_values:
  "scaled6 0 = 0" "scaled6 1 = 1000000" "scaled6 2 = 2000000" "scaled6 4 = 4000000"
  "scaled6 (- 1) = 1000000"
  by (simp_all add: scaled6_def)

lemma fixed6_values:
  "fixed6 0 = ''0.000000''" "fixed6 1 = ''1.000000''" "fixed6 2 = ''2.000000''"
  "fixed6 4 = ''4.000000''" "fixed6 (- 1) = ''-1.000000''"
  by (simp_all add: fixed6_def scaled6_values lastDigits_6_0 showNat_digit_values)

lemma default_materials:
  "cylinder.materialType cylDefault = Concrete" "sphere.materialType (unitSphereAt x) = Concrete"
  by (simp_all add: cylDefault_def unitSphereAt_def)

lemma cylFarOut_fields:
  "radiusTop cylFarOut = 1" "height cylFarOut = 2"
  "cylinder.position cylFarOut = (10 ^ 21, 0, 0)" "rotation cylFarOut = (0, 0, 0)"
  by (simp_all add: cylFarOut_def)

lemma toFixed6_large: "10 ^ 21 \<le> \<bar>x\<bar> \<Longrightarrow> toFixed6 x = None"
  by (simp add: toFixed6_def)

lemma rccLine_cylFarOut: "rccLine index cylFarOut = None"
  by (simp add: rccLine_def cylFarOut_fields timesPi_def eulerToDirection_zero Let_def
      toFixed6_large)

lemma not_printable_cylFarOut: "\<not> printableScene [(''cylinder1'', cylFarOut)] []"
  by (simp add: printableScene_def printableCylinder_def axisStart_def scale3_def sub3_def
      direction_upright cylFarOut_fields printable_def)

text \<open>
  C3, as stated for every scene, fails at a scene with an exported number of magnitude
  \<open>10\<^sup>2\<^sup>1\<close> or more, which the number inputs accept. The base of \<open>cylFarOut\<close> has
  \<open>x = 10\<^sup>2\<^sup>1\<close>; \<^verbatim>\<open>toFixed(6)\<close> prints it in exponent notation, \<^verbatim>\<open>1e+21\<close>, not with six
  decimals, so the text that is saved is not the lines of \<open>exportLines\<close>.
\<close>

theorem export_exponent_notation_counterexample:
  "\<not> printableScene [(''cylinder1'', cylFarOut)] []
   \<and> axisStart cylFarOut = (10 ^ 21, - 1, 0)
   \<and> toFixed6 (10 ^ 21) = None
   \<and> exportString [(''cylinder1'', cylFarOut)] []
       \<noteq> Some (joinLines (exportLines [(''cylinder1'', cylFarOut)] []))
   \<and> handleExport True [(''cylinder1'', cylFarOut)] [] = NotPrintable"
  using not_printable_cylFarOut
  by (simp add: handleExport_def exportString_def rccLine_cylFarOut toFixed6_large
      axisStart_def scale3_def sub3_def direction_upright cylFarOut_fields)

lemma cylSteel_fields:
  "radiusTop cylSteel = 1" "height cylSteel = 2"
  "cylinder.position cylSteel = (0, 0, 0)" "rotation cylSteel = (0, 0, 0)"
  "cylinder.materialType cylSteel = Steel"
  by (simp_all add: cylSteel_def)

lemma sphWood_fields:
  "radius sphWood = 1" "sphere.position sphWood = (4, 0, 0)"
  "sphere.materialType sphWood = Wood"
  by (simp_all add: sphWood_def)

lemma printable_steel_wood: "printableScene [(''cylinder1'', cylSteel)] [(''sphere1'', sphWood)]"
  by (simp add: printableScene_def printableCylinder_def printableSphere_def axisStart_def
      scale3_def sub3_def direction_upright cylSteel_fields sphWood_fields printable_def)

lemma materialCode_values:
  "materialCode Concrete = 1" "materialCode Steel = 2" "materialCode Wood = 3"
  "materialCode Standard = 4"
  by (simp_all add: materialCode_def)

lemma showNat_3: "showNat 3 = ''3''" "showNat (Suc (Suc (Suc 0))) = ''3''"
  by (simp_all add: showNat.simps digitChar_def)

text \<open>
  C3, amended. For a scene whose exported numbers are below \<open>10\<^sup>2\<^sup>1\<close> in magnitude the
  text of the export is the lines of \<open>exportLines\<close>, each ended by a line feed: the \<^verbatim>\<open>rcc\<close>
  lines of the cylinders in scene order with every number in six decimals, the \<^verbatim>\<open>sph\<close>
  lines of the spheres under the same running index, \<^verbatim>\<open>end body\<close>, one zone line for each
  index, \<^verbatim>\<open>end zone\<close>, the material codes of the table (1 concrete, 2 steel, 3 wood,
  4 standard) in the order of the bodies, and the footer; \<^verbatim>\<open>handleExport\<close> saves that text
  unless there are collisions and the user refuses. The empty scene gives \<^verbatim>\<open>end body\<close>,
  \<^verbatim>\<open>end zone\<close>, an empty line and the footer.
\<close>

theorem export_format:
  assumes "printableScene cyls sphs"
  shows "exportString cyls sphs = Some (joinLines (exportLines cyls sphs))
       \<and> handleExport confirmed cyls sphs =
           (if detectCollisions cyls sphs \<noteq> [] \<and> \<not> confirmed then Cancelled
            else Saved (joinLines (exportLines cyls sphs)))
       \<and> exportString [] [] =
           Some (joinLines [''end body'', ''end zone'', [], ''oesnt worend geom''])"
proof -
  have e: "printableScene [] []" by (simp add: printableScene_def)
  have l: "exportLines [] [] = [''end body'', ''end zone'', [], ''oesnt worend geom'']"
    by (simp add: exportLines_def materialText_def)
  from exportString_text [OF assms] exportString_text [OF e]
  show ?thesis
    by (simp add: handleExport_def Let_def l)
qed

theorem export_format_witness:
  "printableScene [(''cylinder1'', cylSteel)] [(''sphere1'', sphWood)]
   \<and> exportString [(''cylinder1'', cylSteel)] [(''sphere1'', sphWood)] =
       Some (joinLines
         [''rcc 1 0.000000 -1.000000 0.000000 0.000000 2.000000 0.000000 1.000000'',
          ''sph 2 4.000000 0.000000 0.000000 1.000000'',
          ''end body'',
          ''zn1 1 1'',
          ''zn2 1 2'',
          ''end zone'',
          ''2 3 '',
          ''oesnt worend geom''])
   \<and> handleExport True [(''cylinder1'', cylSteel)] [(''sphere1'', sphWood)] =
       Saved (joinLines
         [''rcc 1 0.000000 -1.000000 0.000000 0.000000 2.000000 0.000000 1.000000'',
          ''sph 2 4.000000 0.000000 0.000000 1.000000'',
          ''end body'',
          ''zn1 1 1'',
          ''zn2 1 2'',
          ''end zone'',
          ''2 3 '',
          ''oesnt worend geom''])"
proof -
  have l: "exportLines [(''cylinder1'', cylSteel)] [(''sphere1'', sphWood)] =
         [''rcc 1 0.000000 -1.000000 0.000000 0.000000 2.000000 0.000000 1.000000'',
          ''sph 2 4.000000 0.000000 0.000000 1.000000'',
          ''end body'',
          ''zn1 1 1'',
          ''zn2 1 2'',
          ''end zone'',
          ''2 3 '',
          ''oesnt worend geom'']"
    by (simp add: exportLines_def rccText_def sphText_def zoneText_def materialText_def
        axisStart_def scale3_def sub3_def direction_upright cylSteel_fields
        sphWood_fields fixed6_values showNat_digit_values showNat_3 materialCode_values)
  from export_format [OF printable_steel_wood, of True] printable_steel_wood
  show ?thesis by (simp only: l if_False simp_thms)
qed

end
